theory Spec2Isabelle
  imports Complex_Main "HOL-Library.Char_ord" "HOL-Library.List_Lexorder"
begin

section \<open>Data model of the electrical simulation (src/utils/calculations.ts)\<close>

text \<open>
  The simulation engine computes with JavaScript numbers. They are modelled as
  \<^typ>\<open>real\<close>: no rounding, no NaN, no infinities. Every divisor of the engine
  is a constant, a value that went through a \<^verbatim>\<open>||\<close> fallback, a battery
  voltage (seeded through a fallback, then clamped to 10.5 .. 14.6) or the length of a
  list inside a loop over that list.
  Optional fields (\<^verbatim>\<open>x?: number\<close>) are \<^typ>\<open>real option\<close>.
  The engine itself makes a NaN where it reads the numbers of a charging profile from a
  value that has none (\<open>ProfileLookup\<close> below); from there on its numbers have
  no counterpart in the model.
\<close>

datatype ComponentCategory =
  PowerSource | Distribution | Protection | Load | Charging | Switching | Ground

text \<open>
  The component types that the engine names in a comparison; every other type of the
  catalogue (bus-bar, fuse, bilge-pump, ...) is \<open>OtherType\<close>: the engine
  tells those apart by category only.
\<close>

datatype ComponentType =
  Battery | BatteryBank | StarterBattery | HouseBattery
  | SolarPanel | SolarArray | Alternator | ShorePower
  | DcDcCharger | DcDcMpptCharger | StarterMotor | Engine | OtherType

datatype NodeState = On | Off | ChargingSt | DischargingSt | Idle | Fault

text \<open>The fields of \<^verbatim>\<open>ComponentSpec\<close> that the engine reads.\<close>

record ComponentSpec =
  ctype :: ComponentType
  category :: ComponentCategory
  maxCurrent :: "real option"
  capacity :: "real option"
  rating :: "real option"
  chargeRate :: "real option"
  efficiency :: "real option"
  alternatorInputMin :: "real option"
  alternatorInputMax :: "real option"
  solarInputMin :: "real option"
  solarInputMax :: "real option"
  maxSolarWattage :: "real option"
  maxSolarCurrent :: "real option"
  wattage :: "real option"
  voc :: "real option"
  vmp :: "real option"
  imp :: "real option"
  panelCount :: "real option"
  arrayConfig :: "string option"
  batteryChemistry :: "string option"
  batteryRole :: "string option"
  maxOutputPower :: "real option"
  traditionalAltMin :: "real option"
  maxInputVoltage :: "real option"
  outputVoltageMin :: "real option"
  outputVoltageMax :: "real option"
  tempCompNonLithium :: "real option"
  tempCompLithium :: "real option"

text \<open>\<^verbatim>\<open>customValues: Record<string, number | string | boolean>\<close>\<close>

datatype jsval = Num real | Str string | Bool bool

type_synonym CustomValues = "string \<rightharpoonup> jsval"

text \<open>
  A diagram node: \<^verbatim>\<open>node.id\<close>, and of \<^verbatim>\<open>node.data\<close> the fields
  \<^verbatim>\<open>spec\<close> (the engine guards every read with \<^verbatim>\<open>spec?.\<close>), \<^verbatim>\<open>label\<close>
  and \<^verbatim>\<open>customValues\<close>.
\<close>

record DiagramNode =
  node_id :: string
  spec :: "ComponentSpec option"
  label :: string
  customValues :: CustomValues

record Edge =
  edge_id :: string
  source :: string
  target :: string

record NodeSimState =
  voltage :: real
  current :: real
  power :: real
  state :: NodeState
  stateOfCharge :: "real option"
  efficiencyPct :: "real option"
  inputVoltage :: "real option"
  outputVoltage :: "real option"
  inputCurrent :: "real option"
  outputCurrent :: "real option"
  solarInputPower :: "real option"
  alternatorInputPower :: "real option"
  chargeStage :: "string option"
  dcDcActive :: "bool option"
  activationThreshold :: "real option"
  tempCompensation :: "real option"
  maxOutputPowerSt :: "real option"
  compensatedBulkVoltage :: "real option"
  compensatedFloatVoltage :: "real option"

record ConnectionState =
  conn_id :: string
  sourceId :: string
  targetId :: string
  conn_voltage :: real
  conn_current :: real
  conn_power :: real
  voltageDrop :: real
  isActive :: bool

record EnvironmentState =
  solarIrradiance :: real
  ambientTemp :: real
  engineRunning :: bool
  alternatorRPM :: real
  shoreConnected :: bool

subsection \<open>JavaScript's fallback operators\<close>

text \<open>
  \<^verbatim>\<open>x || d\<close> on an optional number: \<^verbatim>\<open>undefined\<close> and \<^verbatim>\<open>0\<close> are falsy and
  give \<open>d\<close>. A chain \<^verbatim>\<open>a || b || d\<close> is \<open>orElse a (orElse b d)\<close>.
\<close>

definition orElse :: "real option \<Rightarrow> real \<Rightarrow> real" where
  "orElse x d = (case x of None \<Rightarrow> d | Some v \<Rightarrow> if v = 0 then d else v)"

text \<open>\<^verbatim>\<open>s || d\<close> on an optional string: \<^verbatim>\<open>undefined\<close> and \<^verbatim>\<open>''\<close> are falsy.\<close>

definition orElseStr :: "string option \<Rightarrow> string \<Rightarrow> string" where
  "orElseStr x d = (case x of None \<Rightarrow> d | Some v \<Rightarrow> if v = [] then d else v)"

text \<open>\<^verbatim>\<open>x ?? d\<close>: only \<^verbatim>\<open>undefined\<close> gives \<open>d\<close>.\<close>

definition nullish :: "real option \<Rightarrow> real \<Rightarrow> real" where
  "nullish x d = (case x of None \<Rightarrow> d | Some v \<Rightarrow> v)"

text \<open>
  \<^verbatim>\<open>customValues?.key as number\<close> and \<^verbatim>\<open>as string\<close>: the cast promises the
  type, so a value of another type under the key reads as absent.
\<close>

definition cvNum :: "CustomValues \<Rightarrow> string \<Rightarrow> real option" where
  "cvNum cv k = (case cv k of Some (Num r) \<Rightarrow> Some r | _ \<Rightarrow> None)"

definition cvStr :: "CustomValues \<Rightarrow> string \<Rightarrow> string option" where
  "cvStr cv k = (case cv k of Some (Str s) \<Rightarrow> Some s | _ \<Rightarrow> None)"

section \<open>Source resolver\<close>

record Output =
  out_voltage :: real
  out_current :: real
  out_power :: real

definition calculateSolarOutput :: "ComponentSpec \<Rightarrow> real \<Rightarrow> CustomValues \<Rightarrow> Output" where
  "calculateSolarOutput sp irradiance cv =
    (let efficiencyFactor = irradiance / 1000;
         wattageW = orElse (cvNum cv ''wattage'') (orElse (wattage sp) 100) * efficiencyFactor;
         vmpV = orElse (cvNum cv ''vmp'') (orElse (vmp sp) 18);
         cur = wattageW / vmpV
     in \<lparr>out_voltage = vmpV, out_current = cur, out_power = wattageW\<rparr>)"

definition calculateSolarArrayOutput :: "ComponentSpec \<Rightarrow> real \<Rightarrow> CustomValues \<Rightarrow> Output" where
  "calculateSolarArrayOutput sp irradiance cv =
    (let efficiencyFactor = irradiance / 1000;
         wattagePerPanel = orElse (cvNum cv ''wattage'') (orElse (wattage sp) 100);
         panels = orElse (cvNum cv ''panelCount'') (orElse (panelCount sp) 2);
         config = orElseStr (cvStr cv ''arrayConfig'') (orElseStr (arrayConfig sp) ''parallel'');
         vmpV = orElse (cvNum cv ''vmp'') (orElse (vmp sp) 18);
         impA = orElse (cvNum cv ''imp'') (orElse (imp sp) 5.56);
         totalWattage = wattagePerPanel * panels * efficiencyFactor
     in if config = ''series''
        then \<lparr>out_voltage = vmpV * panels, out_current = impA * efficiencyFactor,
              out_power = totalWattage\<rparr>
        else \<lparr>out_voltage = vmpV, out_current = impA * panels * efficiencyFactor,
              out_power = totalWattage\<rparr>)"

definition calculateAlternatorOutput :: "ComponentSpec \<Rightarrow> real \<Rightarrow> Output" where
  "calculateAlternatorOutput sp rpm =
    (if rpm < 800 then \<lparr>out_voltage = 0, out_current = 0, out_power = 0\<rparr>
     else
       let outputFactor = min 1 ((rpm - 800) / 1200);
           maxCur = orElse (maxCurrent sp) 100;
           cur = maxCur * outputFactor;
           volt = 14.4
       in \<lparr>out_voltage = volt, out_current = cur, out_power = volt * cur\<rparr>)"

section \<open>Battery model\<close>

record ChargingProfile =
  bulkVoltage :: real
  floatVoltage :: real
  maxDischargePercent :: real
  maxChargeRate :: real
  voltageAtFull :: real
  voltageAtEmpty :: real
  voltageAt50 :: real

definition leadAcidProfile :: ChargingProfile where
  "leadAcidProfile = \<lparr>bulkVoltage = 14.4, floatVoltage = 13.6, maxDischargePercent = 50,
     maxChargeRate = 0.2, voltageAtFull = 12.7, voltageAtEmpty = 11.8, voltageAt50 = 12.2\<rparr>"

definition agmProfile :: ChargingProfile where
  "agmProfile = \<lparr>bulkVoltage = 14.7, floatVoltage = 13.8, maxDischargePercent = 50,
     maxChargeRate = 0.3, voltageAtFull = 12.8, voltageAtEmpty = 11.8, voltageAt50 = 12.3\<rparr>"

definition gelProfile :: ChargingProfile where
  "gelProfile = \<lparr>bulkVoltage = 14.1, floatVoltage = 13.5, maxDischargePercent = 50,
     maxChargeRate = 0.2, voltageAtFull = 12.8, voltageAtEmpty = 11.8, voltageAt50 = 12.3\<rparr>"

definition lithiumProfile :: ChargingProfile where
  "lithiumProfile = \<lparr>bulkVoltage = 14.2, floatVoltage = 0, maxDischargePercent = 20,
     maxChargeRate = 0.5, voltageAtFull = 13.6, voltageAtEmpty = 12.0, voltageAt50 = 13.2\<rparr>"

definition lifepo4Profile :: ChargingProfile where
  "lifepo4Profile = \<lparr>bulkVoltage = 14.2, floatVoltage = 0, maxDischargePercent = 10,
     maxChargeRate = 1.0, voltageAtFull = 13.6, voltageAtEmpty = 12.0, voltageAt50 = 13.2\<rparr>"

text \<open>
  The table \<^verbatim>\<open>CHARGING_PROFILES\<close>, keyed by chemistry. It is a plain object, so a
  lookup by key answers not only the five keys of the table: the names that every object
  inherits from \<^verbatim>\<open>Object.prototype\<close> give the inherited member, which is truthy
  and is not a profile.
\<close>

datatype ProfileLookup = Profile ChargingProfile | InheritedMember

definition objectPrototypeKeys :: "string list" where
  "objectPrototypeKeys =
    [''constructor'', ''toString'', ''toLocaleString'', ''valueOf'', ''hasOwnProperty'',
     ''isPrototypeOf'', ''propertyIsEnumerable'', ''__proto__'', ''__defineGetter__'',
     ''__defineSetter__'', ''__lookupGetter__'', ''__lookupSetter__'']"

definition CHARGING_PROFILES :: "string \<rightharpoonup> ProfileLookup" where
  "CHARGING_PROFILES k =
    (if k = ''lead-acid'' then Some (Profile leadAcidProfile)
     else if k = ''agm'' then Some (Profile agmProfile)
     else if k = ''gel'' then Some (Profile gelProfile)
     else if k = ''lithium'' then Some (Profile lithiumProfile)
     else if k = ''lifepo4'' then Some (Profile lifepo4Profile)
     else if k \<in> set objectPrototypeKeys then Some InheritedMember
     else None)"

text \<open>
  \<^verbatim>\<open>getChargingProfile\<close>: the entry under the key, or the lead-acid entry when the
  lookup gives nothing. An inherited member is truthy, so it is returned as it is.
\<close>

definition getChargingProfile :: "string option \<Rightarrow> ProfileLookup" where
  "getChargingProfile chemistry =
    (case CHARGING_PROFILES (orElseStr chemistry ''lead-acid'') of
       Some p \<Rightarrow> p
     | None \<Rightarrow> Profile leadAcidProfile)"

text \<open>
  The callers read the seven numbers of the value returned. An inherited member has none
  of them: the source reads \<^verbatim>\<open>undefined\<close> and every voltage and current computed
  from it is \<^verbatim>\<open>NaN\<close>, a value that the real numbers of this model do not have.
  For such a key \<open>profileFields\<close> gives a profile about whose numbers nothing is
  known, so no property below says anything about the voltages and charger currents of
  a battery whose chemistry names an inherited member; \<open>chemistryHasProfile\<close> is the
  condition that excludes these keys.
\<close>

definition profileFields :: "ProfileLookup \<Rightarrow> ChargingProfile" where
  "profileFields l = (case l of Profile p \<Rightarrow> p | InheritedMember \<Rightarrow> undefined)"

definition chemistryHasProfile :: "string \<Rightarrow> bool" where
  "chemistryHasProfile chem = (getChargingProfile (Some chem) \<noteq> InheritedMember)"

text \<open>
  The status update of \<^verbatim>\<open>calculateBatteryState\<close> (its last block): hysteresis with
  an enter threshold of 1.0 A and an exit threshold of 0.3 A. The previous status is the
  \<^verbatim>\<open>state\<close> of the previous tick's node entry, absent on the first tick.
\<close>

definition enterThreshold :: real where "enterThreshold = 1.0"
definition exitThreshold :: real where "exitThreshold = 0.3"

definition batteryStatus :: "NodeState option \<Rightarrow> real \<Rightarrow> NodeState" where
  "batteryStatus previousState netCurrent =
    (if previousState = Some ChargingSt then
       (if netCurrent > exitThreshold then ChargingSt
        else if netCurrent < - exitThreshold then DischargingSt else Idle)
     else if previousState = Some DischargingSt then
       (if netCurrent < - exitThreshold then DischargingSt
        else if netCurrent > exitThreshold then ChargingSt else Idle)
     else
       (if netCurrent > enterThreshold then ChargingSt
        else if netCurrent < - enterThreshold then DischargingSt else Idle))"

record BatteryResult =
  batt_voltage :: real
  batt_stateOfCharge :: real
  batt_state :: NodeState

definition calculateBatteryState ::
  "ComponentSpec \<Rightarrow> real \<Rightarrow> real \<Rightarrow> real \<Rightarrow> NodeState option \<Rightarrow> BatteryResult" where
  "calculateBatteryState sp netCurrent currentSoC deltaTime previousState =
    (let cap = orElse (capacity sp) 100;
         chemistry = orElseStr (batteryChemistry sp) ''lead-acid'';
         profile = profileFields (getChargingProfile (Some chemistry));
         ahChange = (netCurrent * deltaTime) / 3600;
         newSoC = max 0 (min 100 (currentSoC + (ahChange / cap) * 100));
         isLithium = (chemistry = ''lithium'' \<or> chemistry = ''lifepo4'');
         volt =
           (if isLithium then
              (if newSoC > 95 then voltageAtFull profile + (newSoC - 95) * 0.02
               else if newSoC > 15 then voltageAt50 profile + (newSoC - 50) * 0.005
               else voltageAtEmpty profile + newSoC * 0.08)
            else
              (if newSoC > 80 then voltageAt50 profile + (newSoC - 50) * 0.01
               else if newSoC > 20 then voltageAtEmpty profile + (newSoC - 0) * 0.015
               else voltageAtEmpty profile - (20 - newSoC) * 0.02))
     in \<lparr>batt_voltage = max 10.5 (min 14.6 volt),
         batt_stateOfCharge = newSoC,
         batt_state = batteryStatus previousState netCurrent\<rparr>)"

section \<open>Connectivity tracer (helpers of runSimulation)\<close>

definition isNodeConnected :: "Edge list \<Rightarrow> string \<Rightarrow> bool" where
  "isNodeConnected edges nodeId =
    list_ex (\<lambda>e. source e = nodeId \<or> target e = nodeId) edges"

text \<open>One pass over the edges; an edge pushes its other end (a self-loop pushes both).\<close>

definition getDirectConnections :: "Edge list \<Rightarrow> string \<Rightarrow> string list" where
  "getDirectConnections edges nodeId =
    concat (map (\<lambda>e. (if source e = nodeId then [target e] else []) @
                      (if target e = nodeId then [source e] else [])) edges)"

definition specCategory :: "DiagramNode \<Rightarrow> ComponentCategory option" where
  "specCategory nd = map_option category (spec nd)"

definition specType :: "DiagramNode \<Rightarrow> ComponentType option" where
  "specType nd = map_option ctype (spec nd)"

definition isPassThrough :: "DiagramNode \<Rightarrow> bool" where
  "isPassThrough nd =
    (let cat = specCategory nd
     in cat = Some Protection \<or> cat = Some Distribution \<or> cat = Some Switching \<or>
        cat = Some Ground)"

text \<open>
  \<^verbatim>\<open>traceAllConnections(startId, visited)\<close> recurses through pass-through
  neighbours and mutates the shared \<^verbatim>\<open>visited\<close> set; the model passes the set
  in and returns it with the results. \<open>traceStep\<close> is the body of the
  \<^verbatim>\<open>forEach\<close> over the direct connections, with the recursive call as its first
  argument. The recursion depth is bounded by fuel: \<open>None\<close> means that the fuel ran
  out. \<open>traceFuel_total\<close> below shows that the fuel given by
  \<open>traceAllConnections\<close> is always enough.
\<close>

type_synonym TraceResult = "(DiagramNode list \<times> string set) option"

definition traceStep ::
  "(string \<Rightarrow> string set \<Rightarrow> TraceResult) \<Rightarrow> DiagramNode list \<Rightarrow> string \<Rightarrow> TraceResult
     \<Rightarrow> TraceResult" where
  "traceStep recurse nodes connectedId acc =
    (case acc of
       None \<Rightarrow> None
     | Some (results, vis) \<Rightarrow>
         if connectedId \<in> vis then Some (results, vis)
         else
           (case find (\<lambda>nd. node_id nd = connectedId) nodes of
              None \<Rightarrow> Some (results, vis)
            | Some connectedNode \<Rightarrow>
                if isPassThrough connectedNode then
                  (case recurse connectedId vis of
                     None \<Rightarrow> None
                   | Some (sub, vis') \<Rightarrow> Some (results @ sub, vis'))
                else Some (results @ [connectedNode], insert connectedId vis)))"

fun traceFuel ::
  "nat \<Rightarrow> DiagramNode list \<Rightarrow> Edge list \<Rightarrow> string \<Rightarrow> string set \<Rightarrow> TraceResult" where
  "traceFuel 0 nodes edges startId visited = None"
| "traceFuel (Suc n) nodes edges startId visited =
    (if startId \<in> visited then Some ([], visited)
     else
       fold (traceStep (traceFuel n nodes edges) nodes)
         (getDirectConnections edges startId)
         (Some ([], insert startId visited)))"

definition traceAllConnections :: "DiagramNode list \<Rightarrow> Edge list \<Rightarrow> string \<Rightarrow> DiagramNode list" where
  "traceAllConnections nodes edges startId =
    (case traceFuel (Suc (2 * length edges)) nodes edges startId {} of
       Some (results, vis) \<Rightarrow> results
     | None \<Rightarrow> [])"

definition findConnectedByType ::
  "DiagramNode list \<Rightarrow> Edge list \<Rightarrow> string \<Rightarrow> ComponentType list \<Rightarrow> DiagramNode list" where
  "findConnectedByType nodes edges nodeId types =
    filter (\<lambda>n. case specType n of Some t \<Rightarrow> t \<in> set types | None \<Rightarrow> False)
      (traceAllConnections nodes edges nodeId)"

definition findConnectedByCategory ::
  "DiagramNode list \<Rightarrow> Edge list \<Rightarrow> string \<Rightarrow> ComponentCategory list \<Rightarrow> DiagramNode list" where
  "findConnectedByCategory nodes edges nodeId categories =
    filter (\<lambda>n. case specCategory n of Some c \<Rightarrow> c \<in> set categories | None \<Rightarrow> False)
      (traceAllConnections nodes edges nodeId)"

definition batteryTypes :: "ComponentType list" where
  "batteryTypes = [Battery, BatteryBank, StarterBattery, HouseBattery]"

definition isBatteryNode :: "DiagramNode \<Rightarrow> bool" where
  "isBatteryNode n =
    (specType n = Some Battery \<or> specType n = Some BatteryBank \<or>
     specType n = Some StarterBattery \<or> specType n = Some HouseBattery)"

definition isConnectedToBattery :: "DiagramNode list \<Rightarrow> Edge list \<Rightarrow> string \<Rightarrow> bool" where
  "isConnectedToBattery nodes edges nodeId =
    (length (findConnectedByType nodes edges nodeId batteryTypes) > 0)"

definition isConnectedToPower :: "DiagramNode list \<Rightarrow> Edge list \<Rightarrow> string \<Rightarrow> bool" where
  "isConnectedToPower nodes edges nodeId =
    list_ex (\<lambda>n.
        specType n = Some Battery \<or> specType n = Some BatteryBank \<or>
        specType n = Some StarterBattery \<or> specType n = Some HouseBattery \<or>
        specType n = Some ShorePower \<or> specType n = Some Alternator \<or>
        specCategory n = Some Charging \<or> specCategory n = Some PowerSource)
      (traceAllConnections nodes edges nodeId)"

definition findConnectedBattery :: "DiagramNode list \<Rightarrow> Edge list \<Rightarrow> string \<Rightarrow> DiagramNode option" where
  "findConnectedBattery nodes edges nodeId =
    (case findConnectedByType nodes edges nodeId batteryTypes of
       [] \<Rightarrow> None
     | b # bs \<Rightarrow> Some b)"

section \<open>Charger resolver\<close>

text \<open>A node state with the four required fields; every optional field is absent.\<close>

definition mkState :: "real \<Rightarrow> real \<Rightarrow> real \<Rightarrow> NodeState \<Rightarrow> NodeSimState" where
  "mkState v c p st =
    \<lparr>voltage = v, current = c, power = p, state = st, stateOfCharge = None,
     efficiencyPct = None, inputVoltage = None, outputVoltage = None, inputCurrent = None,
     outputCurrent = None, solarInputPower = None, alternatorInputPower = None,
     chargeStage = None, dcDcActive = None, activationThreshold = None,
     tempCompensation = None, maxOutputPowerSt = None, compensatedBulkVoltage = None,
     compensatedFloatVoltage = None\<rparr>"

definition isLithiumChemistry :: "string \<Rightarrow> bool" where
  "isLithiumChemistry chem = (chem = ''lithium'' \<or> chem = ''lifepo4'')"

text \<open>
  \<^verbatim>\<open>calculateDCDCMPPTStateWithChemistry\<close>, in the order of its blocks. First the
  current ceiling \<^verbatim>\<open>powerLimitedMaxCurrent\<close>.
\<close>

definition powerLimitedMaxCurrent :: "ComponentSpec \<Rightarrow> real \<Rightarrow> real \<Rightarrow> string \<Rightarrow> real" where
  "powerLimitedMaxCurrent sp batteryVoltage batteryCapacity batteryChem =
    (let chargeRateA = orElse (chargeRate sp) 30;
         maxOut = orElse (maxOutputPower sp) 400;
         profile = profileFields (getChargingProfile (Some batteryChem));
         maxChemistryChargeCurrent = batteryCapacity * maxChargeRate profile;
         effectiveMaxCurrent = min chargeRateA maxChemistryChargeCurrent;
         maxCurrentByPower = maxOut / batteryVoltage
     in min effectiveMaxCurrent maxCurrentByPower)"

text \<open>
  The locals \<^verbatim>\<open>dcDcActive\<close>, \<^verbatim>\<open>alternatorInputPower\<close>,
  \<^verbatim>\<open>solarInputPowerActual\<close> and \<^verbatim>\<open>outputCurrent\<close> after the alternator
  block and the solar block, before the chemistry-specific charging algorithm.
\<close>

record ChargerLocals =
  cl_dcDcActive :: bool
  cl_alternatorInputPower :: real
  cl_solarInputPowerActual :: real
  cl_outputCurrent :: real

definition chargerInputStage ::
  "ComponentSpec \<Rightarrow> real \<Rightarrow> real \<Rightarrow> real \<Rightarrow> real \<Rightarrow> real \<Rightarrow> string \<Rightarrow> real \<Rightarrow> ChargerLocals" where
  "chargerInputStage sp alternatorVoltage solarVoltage solarPower batteryVoltage
      batteryCapacity batteryChem starterBatteryVoltage =
    (let maxSolarW = orElse (maxSolarWattage sp) 400;
         maxSolarA = orElse (maxSolarCurrent sp) 30;
         eff = orElse (efficiency sp) 94 / 100;
         traditionalAltMinV = orElse (traditionalAltMin sp) 13.2;
         altInputMin = orElse (alternatorInputMin sp) 12;
         altInputMax = orElse (alternatorInputMax sp) 16;
         maxInputV = orElse (maxInputVoltage sp) 30;
         solarInMin = orElse (solarInputMin sp) 9;
         solarInMax = orElse (solarInputMax sp) 32;
         outVMin = orElse (outputVoltageMin sp) 9;
         outVMax = orElse (outputVoltageMax sp) 16;
         dcDcActivationThreshold = traditionalAltMinV;
         limitA = powerLimitedMaxCurrent sp batteryVoltage batteryCapacity batteryChem;
         starterVoltageForCheck =
           (if starterBatteryVoltage > 0 then starterBatteryVoltage else alternatorVoltage);
         inputWithinRange =
           (alternatorVoltage \<ge> altInputMin \<and> alternatorVoltage \<le> min altInputMax maxInputV);
         outputVoltageValid = (batteryVoltage \<ge> outVMin \<and> batteryVoltage \<le> outVMax);
         l0 = \<lparr>cl_dcDcActive = False, cl_alternatorInputPower = 0,
               cl_solarInputPowerActual = 0, cl_outputCurrent = 0\<rparr>;
         l1 =
           (if inputWithinRange \<and> outputVoltageValid \<and>
               starterVoltageForCheck \<ge> dcDcActivationThreshold
            then
              (let altCurrent = min limitA ((alternatorVoltage - batteryVoltage) * 5)
               in if altCurrent > 0
                  then l0\<lparr>cl_dcDcActive := True,
                          cl_alternatorInputPower := alternatorVoltage * altCurrent,
                          cl_outputCurrent := cl_outputCurrent l0 + altCurrent * eff\<rparr>
                  else l0\<lparr>cl_dcDcActive := True\<rparr>)
            else l0);
         solarValid =
           (solarVoltage \<ge> solarInMin \<and> solarVoltage \<le> solarInMax \<and> outputVoltageValid)
     in if solarValid \<and> solarPower > 0
        then
          (let solarIn = min solarPower maxSolarW;
               solarChargeCurrent =
                 min (min (solarIn * eff / batteryVoltage) maxSolarA)
                     (limitA - cl_outputCurrent l1)
           in l1\<lparr>cl_solarInputPowerActual := solarIn,
                  cl_outputCurrent := cl_outputCurrent l1 + max 0 solarChargeCurrent\<rparr>)
        else l1)"

text \<open>
  The chemistry-specific charging algorithm: the charge stage and the scaled output
  current, from the target's chemistry family, its state of charge and the current
  reached so far.
\<close>

definition chargeStageStep :: "bool \<Rightarrow> real \<Rightarrow> real \<Rightarrow> string \<times> real" where
  "chargeStageStep isLithium batterySOC outCur =
    (if outCur > 0 then
       (if isLithium then
          (if batterySOC < 95 then (''bulk (CC)'', outCur)
           else if batterySOC < 100 then (''absorption (CV)'', outCur * ((100 - batterySOC) / 5))
           else (''full - stopped'', 0))
        else
          (if batterySOC < 80 then (''bulk'', outCur)
           else if batterySOC < 95
             then (''absorption'', outCur * (0.7 + ((95 - batterySOC) / 15) * 0.3))
           else (''float'', outCur * 0.1)))
     else (''idle'', outCur))"

definition calculateDCDCMPPTStateWithChemistry ::
  "ComponentSpec \<Rightarrow> real \<Rightarrow> real \<Rightarrow> real \<Rightarrow> real \<Rightarrow> real \<Rightarrow> real \<Rightarrow> string \<Rightarrow> real \<Rightarrow> real
     \<Rightarrow> NodeSimState" where
  "calculateDCDCMPPTStateWithChemistry sp alternatorVoltage solarVoltage solarPower
      batteryVoltage batterySOC batteryCapacity batteryChem starterBatteryVoltage ambientTempC =
    (let eff = orElse (efficiency sp) 94 / 100;
         maxOut = orElse (maxOutputPower sp) 400;
         traditionalAltMinV = orElse (traditionalAltMin sp) 13.2;
         maxInputV = orElse (maxInputVoltage sp) 30;
         dcDcActivationThreshold = traditionalAltMinV;
         tempCompNonLi = orElse (tempCompNonLithium sp) (- 3);
         tempCompLi = orElse (tempCompLithium sp) 0;
         profile = profileFields (getChargingProfile (Some batteryChem));
         isLithium = isLithiumChemistry batteryChem;
         tempDeltaC = ambientTempC - 25;
         tempCompMv = (if isLithium then tempCompLi else tempCompNonLi);
         voltageCompensation = (tempCompMv * tempDeltaC * 6) / 1000;
         limitA = powerLimitedMaxCurrent sp batteryVoltage batteryCapacity batteryChem;
         locals = chargerInputStage sp alternatorVoltage solarVoltage solarPower batteryVoltage
                    batteryCapacity batteryChem starterBatteryVoltage;
         compBulk = bulkVoltage profile + voltageCompensation;
         compFloat = floatVoltage profile + voltageCompensation;
         staged = chargeStageStep isLithium batterySOC (cl_outputCurrent locals);
         outCapped = min (snd staged) limitA;
         outputPower = outCapped * batteryVoltage;
         stateStr =
           (if outCapped > 0.1 then ChargingSt
            else if cl_dcDcActive locals \<or> cl_solarInputPowerActual locals > 0 then On
            else Idle);
         overvoltage = (alternatorVoltage > maxInputV);
         stateFinal = (if overvoltage then Fault else stateStr);
         stageFinal = (if overvoltage then ''overvoltage protection'' else fst staged);
         outFinal = (if overvoltage then 0 else outCapped)
     in \<lparr>voltage = batteryVoltage, current = outFinal, power = outputPower,
         state = stateFinal, stateOfCharge = None,
         efficiencyPct = Some (eff * 100),
         inputVoltage = Some (max alternatorVoltage solarVoltage),
         outputVoltage = Some batteryVoltage,
         inputCurrent =
           Some ((cl_alternatorInputPower locals + cl_solarInputPowerActual locals) /
                 max (max alternatorVoltage solarVoltage) 1),
         outputCurrent = Some outFinal,
         solarInputPower = Some (cl_solarInputPowerActual locals),
         alternatorInputPower = Some (cl_alternatorInputPower locals),
         chargeStage = Some stageFinal,
         dcDcActive = Some (cl_dcDcActive locals),
         activationThreshold = Some dcDcActivationThreshold,
         tempCompensation = Some voltageCompensation,
         maxOutputPowerSt = Some maxOut,
         compensatedBulkVoltage = Some compBulk,
         compensatedFloatVoltage = Some compFloat\<rparr>)"

section \<open>The simulation tick: runSimulation\<close>

text \<open>
  A warning or an error is a template string with interpolated labels and numbers. The
  model keeps the template (in ASCII, placeholders \<open>{L}\<close> for a label and \<open>{N}\<close>
  for a number), the labels and the numbers, in the order of the template; the rendering
  of a number (\<^verbatim>\<open>toFixed\<close>) is not modelled.
\<close>

datatype Message = Message string "string list" "real list"

record Circuit =
  generation :: real
  load :: real

text \<open>The result of a tick (\<^verbatim>\<open>SystemSimulation\<close>).\<close>

record SystemSimulation =
  res_systemVoltage :: real
  res_totalLoad :: real
  res_totalGeneration :: real
  res_netPower :: real
  res_nodes :: "string \<rightharpoonup> NodeSimState"
  res_connections :: "string \<rightharpoonup> ConnectionState"
  res_warnings :: "Message list"
  res_errors :: "Message list"

text \<open>The mutable locals of \<^verbatim>\<open>runSimulation\<close>, passed from pass to pass.\<close>

record SimState =
  nodeStates :: "string \<rightharpoonup> NodeSimState"
  batteryCircuits :: "string \<rightharpoonup> Circuit"
  systemVoltage :: real
  totalLoad :: real
  totalGeneration :: real
  warnings :: "Message list"
  errors :: "Message list"

text \<open>\<^verbatim>\<open>previousState?.nodes[id]\<close>\<close>

definition prevNode :: "SystemSimulation option \<Rightarrow> string \<Rightarrow> NodeSimState option" where
  "prevNode previousState nodeId =
    (case previousState of None \<Rightarrow> None | Some p \<Rightarrow> res_nodes p nodeId)"

definition initCircuits :: "DiagramNode list \<Rightarrow> (string \<rightharpoonup> Circuit)" where
  "initCircuits nodes =
    fold (\<lambda>n m. if isBatteryNode n \<and> m (node_id n) = None
                 then m(node_id n \<mapsto> \<lparr>generation = 0, load = 0\<rparr>) else m)
      nodes Map.empty"

definition initState :: "DiagramNode list \<Rightarrow> SimState" where
  "initState nodes =
    \<lparr>nodeStates = Map.empty, batteryCircuits = initCircuits nodes, systemVoltage = 12,
     totalLoad = 0, totalGeneration = 0, warnings = [], errors = []\<rparr>"

definition setNode :: "string \<Rightarrow> NodeSimState \<Rightarrow> SimState \<Rightarrow> SimState" where
  "setNode nodeId st s = s\<lparr>nodeStates := (nodeStates s)(nodeId \<mapsto> st)\<rparr>"

text \<open>\<^verbatim>\<open>circuit.generation += p\<close> and \<^verbatim>\<open>circuit.load += p\<close>, when the battery has a circuit.\<close>

definition addGeneration :: "string \<Rightarrow> real \<Rightarrow> (string \<rightharpoonup> Circuit) \<Rightarrow> (string \<rightharpoonup> Circuit)" where
  "addGeneration batteryId p m =
    (case m batteryId of
       None \<Rightarrow> m
     | Some circuit \<Rightarrow> m(batteryId \<mapsto> circuit\<lparr>generation := generation circuit + p\<rparr>))"

definition addLoad :: "string \<Rightarrow> real \<Rightarrow> (string \<rightharpoonup> Circuit) \<Rightarrow> (string \<rightharpoonup> Circuit)" where
  "addLoad batteryId p m =
    (case m batteryId of
       None \<Rightarrow> m
     | Some circuit \<Rightarrow> m(batteryId \<mapsto> circuit\<lparr>load := load circuit + p\<rparr>))"

subsection \<open>First pass: power sources\<close>

definition isBatteryType :: "ComponentType \<Rightarrow> bool" where
  "isBatteryType t = (t = Battery \<or> t = BatteryBank \<or> t = StarterBattery \<or> t = HouseBattery)"

definition pass1Node ::
  "DiagramNode list \<Rightarrow> Edge list \<Rightarrow> EnvironmentState \<Rightarrow> SystemSimulation option
     \<Rightarrow> DiagramNode \<Rightarrow> SimState \<Rightarrow> SimState" where
  "pass1Node nodes edges env previousState node s =
    (case spec node of
       None \<Rightarrow> s
     | Some sp \<Rightarrow>
         if category sp \<noteq> PowerSource then s
         else
           let prevState = prevNode previousState (node_id node)
           in if isBatteryType (ctype sp) then
                (let currentSoC = nullish (Option.bind prevState stateOfCharge) 80;
                     entry = (mkState (orElse (map_option voltage prevState) 12.8) 0 0 Idle)
                               \<lparr>stateOfCharge := Some currentSoC\<rparr>
                 in (setNode (node_id node) entry s)\<lparr>systemVoltage := voltage entry\<rparr>)
              else if ctype sp = SolarPanel then
                (let solar = calculateSolarOutput sp (solarIrradiance env) (customValues node)
                 in setNode (node_id node)
                      (mkState (out_voltage solar) (out_current solar) (out_power solar)
                         (if out_power solar > 0 then On else Idle)) s)
              else if ctype sp = SolarArray then
                (let solar = calculateSolarArrayOutput sp (solarIrradiance env) (customValues node)
                 in setNode (node_id node)
                      (mkState (out_voltage solar) (out_current solar) (out_power solar)
                         (if out_power solar > 0 then On else Idle)) s)
              else if ctype sp = Alternator then
                (let alt = calculateAlternatorOutput sp (alternatorRPM env);
                     isAltConnected = isConnectedToBattery nodes edges (node_id node);
                     active = (out_power alt > 0 \<and> isAltConnected);
                     s1 = setNode (node_id node)
                            (mkState (out_voltage alt)
                               (if active then out_current alt else 0)
                               (if active then out_power alt else 0)
                               (if active then On else Idle)) s
                 in if engineRunning env \<and> isAltConnected then
                      (let connectedBatteries =
                             findConnectedByType nodes edges (node_id node) batteryTypes
                       in s1\<lparr>totalGeneration := totalGeneration s1 + out_power alt,
                             batteryCircuits :=
                               fold (\<lambda>battery.
                                   addGeneration (node_id battery)
                                     (out_power alt / real (length connectedBatteries)))
                                 connectedBatteries (batteryCircuits s1)\<rparr>)
                    else s1)
              else s)"

subsection \<open>Second pass: chargers\<close>

text \<open>ASCII \<^verbatim>\<open>toLowerCase\<close> and \<^verbatim>\<open>String.prototype.includes\<close> (\<open>includesStr\<close>).\<close>

definition lowerChar :: "char \<Rightarrow> char" where
  "lowerChar c =
    (if CHR ''A'' \<le> c \<and> c \<le> CHR ''Z'' then char_of (of_char c + (32::nat)) else c)"

definition toLowerCase :: "string \<Rightarrow> string" where
  "toLowerCase s = map lowerChar s"

fun isPrefixOf :: "string \<Rightarrow> string \<Rightarrow> bool" where
  "isPrefixOf [] s = True"
| "isPrefixOf (p # ps) [] = False"
| "isPrefixOf (p # ps) (c # cs) = (p = c \<and> isPrefixOf ps cs)"

fun includesStr :: "string \<Rightarrow> string \<Rightarrow> bool" where
  "includesStr [] sub = (sub = [])"
| "includesStr (c # cs) sub = (isPrefixOf sub (c # cs) \<or> includesStr cs sub)"

datatype BatteryRole = Starter | House | Generic

record BatteryInfo =
  bi_id :: string
  bi_voltage :: real
  bi_soc :: real
  bi_label :: string
  bi_role :: BatteryRole
  bi_chemistry :: string
  bi_capacity :: real

text \<open>
  The locals that the scan of the traced nodes fills: \<^verbatim>\<open>solarVoltage\<close>,
  \<^verbatim>\<open>solarPower\<close>, \<^verbatim>\<open>inputVoltage\<close> and \<^verbatim>\<open>connectedBatteries\<close>.
\<close>

record ChargerScan =
  sc_solarVoltage :: real
  sc_solarPower :: real
  sc_inputVoltage :: real
  sc_batteries :: "BatteryInfo list"

definition batteryRoleOf :: "DiagramNode \<Rightarrow> BatteryRole" where
  "batteryRoleOf connectedNode =
    (let t = specType connectedNode;
         role = Option.bind (spec connectedNode) batteryRole;
         lbl = toLowerCase (label connectedNode)
     in if t = Some StarterBattery \<or> role = Some ''starter'' then Starter
        else if t = Some HouseBattery \<or> role = Some ''house'' then House
        else if includesStr lbl ''starter'' \<or> includesStr lbl ''start'' \<or> includesStr lbl ''engine''
          then Starter
        else if includesStr lbl ''house'' \<or> includesStr lbl ''lithium'' \<or> includesStr lbl ''aux'' \<or>
                includesStr lbl ''lifepo''
          then House
        else Generic)"

definition nodeChemistry :: "DiagramNode \<Rightarrow> string" where
  "nodeChemistry n =
    orElseStr (cvStr (customValues n) ''batteryChemistry'')
      (orElseStr (Option.bind (spec n) batteryChemistry) ''lead-acid'')"

definition nodeCapacity :: "DiagramNode \<Rightarrow> real" where
  "nodeCapacity n =
    orElse (cvNum (customValues n) ''capacity'') (orElse (Option.bind (spec n) capacity) 100)"

definition scanConnected :: "(string \<rightharpoonup> NodeSimState) \<Rightarrow> DiagramNode \<Rightarrow> ChargerScan \<Rightarrow> ChargerScan" where
  "scanConnected ns connectedNode sc =
    (let t = specType connectedNode;
         st = ns (node_id connectedNode);
         sc1 = (if t = Some SolarPanel \<or> t = Some SolarArray then
                  (case st of
                     None \<Rightarrow> sc
                   | Some nst \<Rightarrow>
                       sc\<lparr>sc_solarVoltage := max (sc_solarVoltage sc) (voltage nst),
                          sc_solarPower := sc_solarPower sc + power nst\<rparr>)
                else sc);
         sc2 = (if t = Some Alternator then
                  (case st of
                     None \<Rightarrow> sc1
                   | Some nst \<Rightarrow>
                       if voltage nst > sc_inputVoltage sc1
                       then sc1\<lparr>sc_inputVoltage := voltage nst\<rparr> else sc1)
                else sc1)
     in if isBatteryNode connectedNode then
          (case st of
             None \<Rightarrow> sc2
           | Some nst \<Rightarrow>
               sc2\<lparr>sc_batteries := sc_batteries sc2 @
                  [\<lparr>bi_id = node_id connectedNode, bi_voltage = voltage nst,
                    bi_soc = orElse (stateOfCharge nst) 50,
                    bi_label = toLowerCase (label connectedNode),
                    bi_role = batteryRoleOf connectedNode,
                    bi_chemistry = nodeChemistry connectedNode,
                    bi_capacity = nodeCapacity connectedNode\<rparr>]\<rparr>)
        else sc2)"

text \<open>The locals that the role resolution sets.\<close>

record Resolution =
  rs_inputVoltage :: real
  rs_targetBatteryId :: "string option"
  rs_targetBatteryVoltage :: real
  rs_targetBatterySoC :: real
  rs_targetBatteryChemistry :: string
  rs_targetBatteryCapacity :: real
  rs_sourceBatteryId :: "string option"
  rs_starterBatteryVoltage :: real

definition setTarget :: "BatteryInfo \<Rightarrow> Resolution \<Rightarrow> Resolution" where
  "setTarget b r =
    r\<lparr>rs_targetBatteryId := Some (bi_id b), rs_targetBatteryVoltage := bi_voltage b,
      rs_targetBatterySoC := bi_soc b, rs_targetBatteryChemistry := bi_chemistry b,
      rs_targetBatteryCapacity := bi_capacity b\<rparr>"

definition setSource :: "BatteryInfo \<Rightarrow> Resolution \<Rightarrow> Resolution" where
  "setSource b r =
    r\<lparr>rs_sourceBatteryId := Some (bi_id b), rs_starterBatteryVoltage := bi_voltage b,
      rs_inputVoltage := max (rs_inputVoltage r) (bi_voltage b)\<rparr>"

text \<open>
  \<^verbatim>\<open>Array.prototype.sort\<close> with a comparator: the sort is stable, an element goes
  before the first one that the comparator puts after it. The comparator of the source is
  \<^verbatim>\<open>localeCompare\<close> on the identifiers, the collation of the host, which is not
  part of the repository: it is a parameter of the resolution.
\<close>

fun insertSorted :: "('a \<Rightarrow> 'a \<Rightarrow> int) \<Rightarrow> 'a \<Rightarrow> 'a list \<Rightarrow> 'a list" where
  "insertSorted cmp x [] = [x]"
| "insertSorted cmp x (y # ys) =
    (if cmp x y < 0 then x # y # ys else y # insertSorted cmp x ys)"

definition sortWith :: "('a \<Rightarrow> 'a \<Rightarrow> int) \<Rightarrow> 'a list \<Rightarrow> 'a list" where
  "sortWith cmp xs = foldl (\<lambda>acc x. insertSorted cmp x acc) [] xs"

text \<open>
  Two or more batteries: the first with role starter and the first with role house, or
  else the first two identifiers in the order of \<^verbatim>\<open>localeCompare\<close>.
\<close>

definition resolveRoles :: "(string \<Rightarrow> string \<Rightarrow> int) \<Rightarrow> real \<Rightarrow> ChargerScan \<Rightarrow> Resolution" where
  "resolveRoles localeCompare sysV sc =
    (let r0 = \<lparr>rs_inputVoltage = sc_inputVoltage sc, rs_targetBatteryId = None,
               rs_targetBatteryVoltage = sysV, rs_targetBatterySoC = 50,
               rs_targetBatteryChemistry = ''lead-acid'', rs_targetBatteryCapacity = 100,
               rs_sourceBatteryId = None, rs_starterBatteryVoltage = 0\<rparr>;
         bs = sc_batteries sc
     in if length bs \<ge> 2 then
          (case (find (\<lambda>b. bi_role b = Starter) bs, find (\<lambda>b. bi_role b = House) bs) of
             (Some starterBatt, Some houseBatt) \<Rightarrow> setTarget houseBatt (setSource starterBatt r0)
           | _ \<Rightarrow>
               (case sortWith (\<lambda>a b. localeCompare (bi_id a) (bi_id b)) bs of
                  b0 # b1 # rest \<Rightarrow> setTarget b1 (setSource b0 r0)
                | _ \<Rightarrow> r0))
        else if length bs = 1 then setTarget (hd bs) r0
        else r0)"

definition pass2Node ::
  "(string \<Rightarrow> string \<Rightarrow> int) \<Rightarrow> DiagramNode list \<Rightarrow> Edge list \<Rightarrow> EnvironmentState
     \<Rightarrow> DiagramNode \<Rightarrow> SimState \<Rightarrow> SimState" where
  "pass2Node localeCompare nodes edges env node s =
    (case spec node of
       None \<Rightarrow> s
     | Some sp \<Rightarrow>
         if category sp \<noteq> Charging then s
         else if ctype sp = DcDcMpptCharger then
           (let allConnected = traceAllConnections nodes edges (node_id node);
                sc = fold (scanConnected (nodeStates s)) allConnected
                       \<lparr>sc_solarVoltage = 0, sc_solarPower = 0, sc_inputVoltage = 0,
                        sc_batteries = []\<rparr>;
                r = resolveRoles localeCompare (systemVoltage s) sc;
                hasInput = (rs_inputVoltage r > 10 \<or> sc_solarPower sc > 0)
            in case rs_targetBatteryId r of
                 Some tgtId \<Rightarrow>
                   if tgtId \<noteq> [] \<and> hasInput then
                     (let dcdcState =
                            calculateDCDCMPPTStateWithChemistry sp (rs_inputVoltage r)
                              (sc_solarVoltage sc) (sc_solarPower sc)
                              (rs_targetBatteryVoltage r) (rs_targetBatterySoC r)
                              (rs_targetBatteryCapacity r) (rs_targetBatteryChemistry r)
                              (rs_starterBatteryVoltage r) 25;
                          s1 = setNode (node_id node) dcdcState s
                      in s1\<lparr>totalGeneration := totalGeneration s1 + power dcdcState,
                            batteryCircuits :=
                              addGeneration tgtId (power dcdcState) (batteryCircuits s1)\<rparr>)
                   else
                     setNode (node_id node)
                       ((mkState 0 0 0 Idle)
                          \<lparr>efficiencyPct := Some (orElse (efficiency sp) 98),
                           inputVoltage := Some (max (rs_inputVoltage r) (sc_solarVoltage sc)),
                           outputVoltage := Some 0, inputCurrent := Some 0,
                           outputCurrent := Some 0, solarInputPower := Some 0,
                           alternatorInputPower := Some 0\<rparr>) s
               | None \<Rightarrow>
                   setNode (node_id node)
                     ((mkState 0 0 0 Idle)
                        \<lparr>efficiencyPct := Some (orElse (efficiency sp) 98),
                         inputVoltage := Some (max (rs_inputVoltage r) (sc_solarVoltage sc)),
                         outputVoltage := Some 0, inputCurrent := Some 0,
                         outputCurrent := Some 0, solarInputPower := Some 0,
                         alternatorInputPower := Some 0\<rparr>) s)
         else if ctype sp = DcDcCharger then
           (let rate = orElse (cvNum (customValues node) ''chargeRate'')
                         (orElse (chargeRate sp) 20);
                inputActive = engineRunning env;
                connectedBattery = findConnectedBattery nodes edges (node_id node);
                isCharging = (inputActive \<and> connectedBattery \<noteq> None);
                s1 = setNode (node_id node)
                       ((mkState (systemVoltage s) (if isCharging then rate else 0)
                           (if isCharging then rate * systemVoltage s else 0)
                           (if isCharging then ChargingSt else Idle))
                          \<lparr>efficiencyPct := Some (orElse (efficiency sp) 92)\<rparr>) s
            in case connectedBattery of
                 Some battery \<Rightarrow>
                   if isCharging then
                     s1\<lparr>totalGeneration := totalGeneration s1 + rate * systemVoltage s,
                        batteryCircuits :=
                          addGeneration (node_id battery) (rate * systemVoltage s)
                            (batteryCircuits s1)\<rparr>
                   else s1
               | None \<Rightarrow> s1)
         else s)"

subsection \<open>Third pass: loads and passive components\<close>

definition warn :: "Message \<Rightarrow> SimState \<Rightarrow> SimState" where
  "warn m s = s\<lparr>warnings := warnings s @ [m]\<rparr>"

definition err :: "Message \<Rightarrow> SimState \<Rightarrow> SimState" where
  "err m s = s\<lparr>errors := errors s @ [m]\<rparr>"

definition loadStep :: "DiagramNode list \<Rightarrow> Edge list \<Rightarrow> DiagramNode \<Rightarrow> ComponentSpec \<Rightarrow> SimState \<Rightarrow> SimState" where
  "loadStep nodes edges node sp s =
    (let maxCur = orElse (cvNum (customValues node) ''maxCurrent'') (orElse (maxCurrent sp) 5);
         isOn = (customValues node ''isOn'' \<noteq> Some (Bool False));
         isPowered = isConnectedToPower nodes edges (node_id node);
         isActiveLoad = (isOn \<and> isPowered);
         cur = (if isActiveLoad then maxCur else 0);
         pw = cur * systemVoltage s;
         s1 = setNode (node_id node)
                (mkState (if isPowered then systemVoltage s else 0) cur pw
                   (if isActiveLoad then On else if isOn \<and> \<not> isPowered then Fault else Off)) s
     in if isActiveLoad then
          s1\<lparr>totalLoad := totalLoad s1 + pw,
             batteryCircuits :=
               (case findConnectedBattery nodes edges (node_id node) of
                  Some battery \<Rightarrow> addLoad (node_id battery) pw (batteryCircuits s1)
                | None \<Rightarrow> batteryCircuits s1)\<rparr>
        else s1)"

text \<open>
  The two sums of the protection case: over the traced loads whose recorded state is
  \<open>On\<close>, and over the traced chargers whose recorded state is \<open>On\<close> or charging
  (\<^verbatim>\<open>outputCurrent || current || 0\<close>).
\<close>

definition sumLoadCurrent :: "(string \<rightharpoonup> NodeSimState) \<Rightarrow> DiagramNode list \<Rightarrow> real" where
  "sumLoadCurrent ns loads =
    fold (\<lambda>loadNode total.
        case ns (node_id loadNode) of
          Some loadState \<Rightarrow> if state loadState = On then total + current loadState else total
        | None \<Rightarrow> total)
      loads 0"

definition sumChargingCurrent :: "(string \<rightharpoonup> NodeSimState) \<Rightarrow> DiagramNode list \<Rightarrow> real" where
  "sumChargingCurrent ns chargers =
    fold (\<lambda>chargerNode total.
        case ns (node_id chargerNode) of
          Some chargerState \<Rightarrow>
            if state chargerState = On \<or> state chargerState = ChargingSt
            then total + orElse (outputCurrent chargerState)
                           (orElse (Some (current chargerState)) 0)
            else total
        | None \<Rightarrow> total)
      chargers 0"

definition currentThroughProtection :: "DiagramNode list \<Rightarrow> Edge list \<Rightarrow> DiagramNode \<Rightarrow> SimState \<Rightarrow> real" where
  "currentThroughProtection nodes edges node s =
    (let downstreamLoads = findConnectedByCategory nodes edges (node_id node) [Load];
         connectedChargers = findConnectedByCategory nodes edges (node_id node) [Charging];
         totalDownstreamCurrent = sumLoadCurrent (nodeStates s) downstreamLoads;
         totalChargingCurrent = sumChargingCurrent (nodeStates s) connectedChargers
     in max totalDownstreamCurrent totalChargingCurrent)"

definition overRatedMessage :: "string \<Rightarrow> real \<Rightarrow> real \<Rightarrow> Message" where
  "overRatedMessage lbl currentThrough ratingA =
    Message ''{L} is over-rated: {N}A through {N}A fuse!'' [lbl] [currentThrough, ratingA]"

definition protectionStep ::
  "DiagramNode list \<Rightarrow> Edge list \<Rightarrow> DiagramNode \<Rightarrow> ComponentSpec \<Rightarrow> SimState \<Rightarrow> SimState" where
  "protectionStep nodes edges node sp s =
    (let ratingA = orElse (cvNum (customValues node) ''rating'') (orElse (rating sp) 15);
         currentThrough = currentThroughProtection nodes edges node s;
         isOverloaded = (currentThrough > ratingA);
         isBlown = (customValues node ''isBlown'' = Some (Bool True));
         fuseState = (if isBlown then Off else if isOverloaded then Fault else On);
         s1 = setNode (node_id node)
                (mkState (if fuseState = Off then 0 else systemVoltage s)
                   (if fuseState = Off then 0 else currentThrough)
                   (if fuseState = Off then 0 else currentThrough * systemVoltage s)
                   fuseState) s
     in if isOverloaded \<and> \<not> isBlown
        then warn (overRatedMessage (label node) currentThrough ratingA) s1
        else s1)"

definition pass3Node :: "DiagramNode list \<Rightarrow> Edge list \<Rightarrow> DiagramNode \<Rightarrow> SimState \<Rightarrow> SimState" where
  "pass3Node nodes edges node s =
    (case spec node of
       None \<Rightarrow> s
     | Some sp \<Rightarrow>
         if category sp = PowerSource \<or> category sp = Charging then s
         else
           (case category sp of
              Load \<Rightarrow> loadStep nodes edges node sp s
            | Protection \<Rightarrow> protectionStep nodes edges node sp s
            | Distribution \<Rightarrow> setNode (node_id node) (mkState (systemVoltage s) 0 0 On) s
            | Switching \<Rightarrow> setNode (node_id node) (mkState (systemVoltage s) 0 0 On) s
            | _ \<Rightarrow> setNode (node_id node) (mkState (systemVoltage s) 0 0 Idle) s))"

subsection \<open>Fourth pass: battery finalisation\<close>

text \<open>\<^verbatim>\<open>a || b\<close> where \<open>b\<close> may be absent too.\<close>

definition orElseOpt :: "real option \<Rightarrow> real option \<Rightarrow> real option" where
  "orElseOpt x y = (case x of None \<Rightarrow> y | Some v \<Rightarrow> if v = 0 then y else Some v)"

definition pass4Node ::
  "Edge list \<Rightarrow> SystemSimulation option \<Rightarrow> real \<Rightarrow> DiagramNode \<Rightarrow> SimState \<Rightarrow> SimState" where
  "pass4Node edges previousState deltaTime node s =
    (case spec node of
       None \<Rightarrow> s
     | Some sp \<Rightarrow>
         if \<not> isBatteryType (ctype sp) then s
         else
           let prevState = prevNode previousState (node_id node);
               currentSoC = nullish (Option.bind prevState stateOfCharge) 80;
               previousBatteryState = map_option state prevState;
               circuit = batteryCircuits s (node_id node);
               connected = isNodeConnected edges (node_id node);
               netPowerForBattery =
                 (case circuit of
                    Some c \<Rightarrow> if connected then generation c - load c else 0
                  | None \<Rightarrow> 0);
               netCurrentForBattery =
                 (if connected \<and> circuit \<noteq> None then netPowerForBattery / systemVoltage s
                  else 0);
               battState =
                 calculateBatteryState
                   (sp\<lparr>capacity := orElseOpt (cvNum (customValues node) ''capacity'') (capacity sp)\<rparr>)
                   netCurrentForBattery currentSoC deltaTime previousBatteryState;
               old = (case nodeStates s (node_id node) of
                        Some st \<Rightarrow> st
                      | None \<Rightarrow> mkState 0 0 0 Idle);
               s1 = setNode (node_id node)
                      (old\<lparr>voltage := batt_voltage battState,
                           current := (if connected then \<bar>netCurrentForBattery\<bar> else 0),
                           power := (if connected then \<bar>netPowerForBattery\<bar> else 0),
                           state := (if connected then batt_state battState else Idle),
                           stateOfCharge := Some (batt_stateOfCharge battState)\<rparr>) s;
               battCapacity = orElse (cvNum (customValues node) ''capacity'')
                                (orElse (capacity sp) 100);
               s2 = (if battCapacity \<ge> 100 \<or> systemVoltage s1 = 12
                     then s1\<lparr>systemVoltage := batt_voltage battState\<rparr> else s1);
               s3 = (if batt_stateOfCharge battState < 20
                     then warn (Message ''Battery {L} is low ({N}%)'' [label node]
                                  [batt_stateOfCharge battState]) s2
                     else s2)
           in if batt_stateOfCharge battState < 10
              then err (Message ''Battery {L} critically low!'' [label node] []) s3
              else s3)"

subsection \<open>The four passes and the connection states\<close>

text \<open>
  The passes are evaluated on a host whose \<^verbatim>\<open>localeCompare\<close> orders identifiers
  by their character codes. The comparator is used only where a charger is wired to two
  or more batteries of which none is recognised as starter or none as house; on another
  host, \<open>pass2Node\<close> is to be read with the comparator of that host.
\<close>

definition codePointCompare :: "string \<Rightarrow> string \<Rightarrow> int" where
  "codePointCompare a b = (if a < b then - 1 else if a = b then 0 else 1)"

definition runPasses ::
  "DiagramNode list \<Rightarrow> Edge list \<Rightarrow> EnvironmentState \<Rightarrow> SystemSimulation option \<Rightarrow> real
     \<Rightarrow> SimState" where
  "runPasses nodes edges env previousState deltaTime =
    (let s0 = initState nodes;
         s1 = fold (pass1Node nodes edges env previousState) nodes s0;
         s2 = fold (pass2Node codePointCompare nodes edges env) nodes s1;
         s3 = fold (pass3Node nodes edges) nodes s2
     in fold (pass4Node edges previousState deltaTime) nodes s3)"

definition connectionStatesOf :: "Edge list \<Rightarrow> real \<Rightarrow> (string \<rightharpoonup> ConnectionState)" where
  "connectionStatesOf edges sysV =
    fold (\<lambda>e m. m(edge_id e \<mapsto>
             \<lparr>conn_id = edge_id e, sourceId = source e, targetId = target e,
              conn_voltage = sysV, conn_current = 0, conn_power = 0, voltageDrop = 0,
              isActive = True\<rparr>))
      edges Map.empty"

subsection \<open>Diagnostics\<close>

definition warnIf :: "bool \<Rightarrow> Message \<Rightarrow> SimState \<Rightarrow> SimState" where
  "warnIf c m s = (if c then warn m s else s)"

definition errIf :: "bool \<Rightarrow> Message \<Rightarrow> SimState \<Rightarrow> SimState" where
  "errIf c m s = (if c then err m s else s)"

definition labelIsLithium :: "DiagramNode \<Rightarrow> bool" where
  "labelIsLithium n =
    (includesStr (toLowerCase (label n)) ''lithium'' \<or>
     includesStr (toLowerCase (label n)) ''lifepo'')"

definition nodeRating :: "DiagramNode \<Rightarrow> ComponentSpec \<Rightarrow> real" where
  "nodeRating node sp = orElse (cvNum (customValues node) ''rating'') (orElse (rating sp) 15)"

text \<open>Connection warnings, one node at a time (disconnected components return early).\<close>

definition connectionWarnings ::
  "DiagramNode list \<Rightarrow> Edge list \<Rightarrow> EnvironmentState \<Rightarrow> DiagramNode \<Rightarrow> SimState \<Rightarrow> SimState" where
  "connectionWarnings nodes edges env node s =
    (case spec node of
       None \<Rightarrow> s
     | Some sp \<Rightarrow>
         let nst = nodeStates s (node_id node);
             batteriesTraced = findConnectedByType nodes edges (node_id node) batteryTypes;
             chargersTraced = findConnectedByCategory nodes edges (node_id node) [Charging]
         in if \<not> isNodeConnected edges (node_id node) then
              (if category sp = PowerSource \<and> ctype sp \<noteq> Battery \<and> ctype sp \<noteq> BatteryBank
                 then warn (Message ''{L} is not connected to anything'' [label node] []) s
               else if category sp = Load
                 then warn (Message ''{L} has no wire connections'' [label node] []) s
               else if category sp = Charging
                 then warn (Message ''{L} is not wired into the system'' [label node] []) s
               else s)
            else
              (let s1 = warnIf (category sp = Load \<and>
                                customValues node ''isOn'' \<noteq> Some (Bool False) \<and>
                                \<not> isConnectedToPower nodes edges (node_id node))
                          (Message ''{L} is on but not connected to a battery'' [label node] []) s;
                   s2 = warnIf ((ctype sp = SolarPanel \<or> ctype sp = SolarArray) \<and>
                                length chargersTraced = 0 \<and>
                                (case nst of Some x \<Rightarrow> power x > 0 | None \<Rightarrow> False))
                          (Message ''{L} is producing power but not connected to a charger''
                             [label node] []) s1;
                   s3 = warnIf (ctype sp = Alternator \<and> length batteriesTraced = 0 \<and>
                                length chargersTraced = 0 \<and> engineRunning env)
                          (Message ''{L} is running but not connected to a battery or charger''
                             [label node] []) s2;
                   s4 = warnIf (category sp = Charging \<and> length batteriesTraced = 0)
                          (Message ''{L} has no battery connected to charge'' [label node] []) s3
               in warnIf (ctype sp = DcDcMpptCharger \<and>
                          length (findConnectedByType nodes edges (node_id node)
                                    [SolarPanel, SolarArray]) = 0 \<and>
                          length (findConnectedByType nodes edges (node_id node) [Alternator]) = 0 \<and>
                          length batteriesTraced < 2)
                    (Message ''{L} has no power input (solar, alternator, or starter battery)''
                       [label node] []) s4))"

definition batteryUseWarnings :: "DiagramNode list \<Rightarrow> Edge list \<Rightarrow> DiagramNode \<Rightarrow> SimState \<Rightarrow> SimState" where
  "batteryUseWarnings nodes edges node s =
    (if isBatteryNode node \<and> isNodeConnected edges (node_id node) then
       (let allConnected = traceAllConnections nodes edges (node_id node);
            hasLoads = list_ex (\<lambda>n. specCategory n = Some Load) allConnected;
            hasChargers = list_ex (\<lambda>n. specCategory n = Some Charging) allConnected;
            isStarter = (specType node = Some StarterBattery \<or>
                         Option.bind (spec node) batteryRole = Some ''starter'');
            hasNonStarterLoads =
              list_ex (\<lambda>n. specCategory n = Some Load \<and> specType n \<noteq> Some StarterMotor \<and>
                          specType n \<noteq> Some Engine) allConnected;
            s1 = warnIf (isStarter \<and> hasNonStarterLoads)
                   (Message ''{L} has house loads connected! Starter battery should only power starter motor.''
                      [label node] []) s
        in warnIf (\<not> hasLoads \<and> \<not> hasChargers)
             (Message ''{L} is not connected to any loads or chargers'' [label node] []) s1)
     else s)"

definition protectionMissing :: "DiagramNode list \<Rightarrow> Edge list \<Rightarrow> DiagramNode \<Rightarrow> SimState \<Rightarrow> SimState" where
  "protectionMissing nodes edges node s =
    (if specCategory node = Some Load \<and> isNodeConnected edges (node_id node) then
       (let allConnected = traceAllConnections nodes edges (node_id node);
            hasProtection = list_ex (\<lambda>n. specCategory n = Some Protection) allConnected;
            hasBattery = list_ex isBatteryNode allConnected
        in warnIf (hasBattery \<and> \<not> hasProtection)
             (Message ''{L} has no fuse/breaker protection!'' [label node] []) s)
     else s)"

definition fuseUndersized :: "Edge list \<Rightarrow> DiagramNode \<Rightarrow> SimState \<Rightarrow> SimState" where
  "fuseUndersized edges node s =
    (case spec node of
       None \<Rightarrow> s
     | Some sp \<Rightarrow>
         if category sp = Protection \<and> isNodeConnected edges (node_id node) then
           (case nodeStates s (node_id node) of
              None \<Rightarrow> s
            | Some nst \<Rightarrow>
                errIf (current nst > 0 \<and> nodeRating node sp < current nst * 0.8)
                  (Message ''{L} ({N}A) is undersized for {N}A load!'' [label node]
                     [nodeRating node sp, current nst]) s)
         else s)"

definition nodeVoc :: "DiagramNode \<Rightarrow> real" where
  "nodeVoc n = orElse (cvNum (customValues n) ''voc'') (orElse (Option.bind (spec n) voc) 22)"

definition solarVoltageCheck :: "DiagramNode list \<Rightarrow> Edge list \<Rightarrow> DiagramNode \<Rightarrow> SimState \<Rightarrow> SimState" where
  "solarVoltageCheck nodes edges node s =
    (case spec node of
       None \<Rightarrow> s
     | Some sp \<Rightarrow>
         if category sp = Charging \<and> ctype sp = DcDcMpptCharger then
           (let connectedSolar =
                  findConnectedByType nodes edges (node_id node) [SolarPanel, SolarArray];
                maxSolarVoltage = orElse (solarInputMax sp) 32
            in fold (\<lambda>solarNode.
                   errIf (nodeVoc solarNode > maxSolarVoltage)
                     (Message ''{L} Voc ({N}V) exceeds {L} max input ({N}V)!''
                        [label solarNode, label node] [nodeVoc solarNode, maxSolarVoltage]))
                 connectedSolar s)
         else s)"

text \<open>The totals \<^verbatim>\<open>totalBatteryCapacity\<close> and \<^verbatim>\<open>totalDailyLoadAh\<close>.\<close>

definition capacityTotals :: "(string \<rightharpoonup> NodeSimState) \<Rightarrow> DiagramNode \<Rightarrow> real \<times> real \<Rightarrow> real \<times> real" where
  "capacityTotals ns node acc =
    (let (totalBatteryCapacity, totalDailyLoadAh) = acc;
         t = specType node;
         cap1 = (if (t = Some Battery \<or> t = Some BatteryBank \<or> t = Some HouseBattery) \<and>
                    t \<noteq> Some StarterBattery \<and>
                    Option.bind (spec node) batteryRole \<noteq> Some ''starter''
                 then totalBatteryCapacity + nodeCapacity node else totalBatteryCapacity);
         daily1 = (if specCategory node = Some Load then
                     (case ns (node_id node) of
                        Some nst \<Rightarrow>
                          if current nst > 0 then totalDailyLoadAh + current nst * 8
                          else totalDailyLoadAh
                      | None \<Rightarrow> totalDailyLoadAh)
                   else totalDailyLoadAh)
     in (cap1, daily1))"

definition chargeRateCheck :: "DiagramNode list \<Rightarrow> Edge list \<Rightarrow> DiagramNode \<Rightarrow> SimState \<Rightarrow> SimState" where
  "chargeRateCheck nodes edges node s =
    (case spec node of
       None \<Rightarrow> s
     | Some sp \<Rightarrow>
         if category sp = Charging then
           (let chargerRate = orElse (cvNum (customValues node) ''chargeRate'')
                                (orElse (chargeRate sp) 30);
                connectedBatteries = findConnectedByType nodes edges (node_id node) batteryTypes
            in fold (\<lambda>battNode.
                   let maxSafeChargeRate =
                         (if labelIsLithium battNode then nodeCapacity battNode
                          else nodeCapacity battNode * 0.5)
                   in warnIf (chargerRate > maxSafeChargeRate)
                        (Message ''{L} ({N}A) may exceed safe charge rate for {L} ({N}A max)''
                           [label node, label battNode] [chargerRate, maxSafeChargeRate]))
                 connectedBatteries s)
         else s)"

definition fuseNearLimit :: "Edge list \<Rightarrow> DiagramNode \<Rightarrow> SimState \<Rightarrow> SimState" where
  "fuseNearLimit edges node s =
    (case spec node of
       None \<Rightarrow> s
     | Some sp \<Rightarrow>
         if category sp = Protection \<and> isNodeConnected edges (node_id node) then
           (case nodeStates s (node_id node) of
              None \<Rightarrow> s
            | Some nst \<Rightarrow>
                let loadPercent = (current nst / nodeRating node sp) * 100
                in warnIf (current nst > 0 \<and> loadPercent \<ge> 80 \<and> loadPercent < 100)
                     (Message ''{L} at {N}% capacity ({N}A / {N}A)'' [label node]
                        [loadPercent, current nst, nodeRating node sp]) s)
         else s)"

definition dischargeRateCheck :: "Edge list \<Rightarrow> DiagramNode \<Rightarrow> SimState \<Rightarrow> SimState" where
  "dischargeRateCheck edges node s =
    (if isBatteryNode node \<and> isNodeConnected edges (node_id node) then
       (case nodeStates s (node_id node) of
          None \<Rightarrow> s
        | Some nst \<Rightarrow>
            let cRate = current nst / nodeCapacity node;
                maxCRate = (if labelIsLithium node then 1.0 else 0.2)
            in warnIf (state nst = DischargingSt \<and> current nst > 0 \<and> cRate > maxCRate)
                 (Message ''{L} discharge rate ({N}C) exceeds recommended {N}C max''
                    [label node] [cRate, maxCRate]) s)
     else s)"

definition seriesVoltageCheck :: "DiagramNode list \<Rightarrow> Edge list \<Rightarrow> DiagramNode \<Rightarrow> SimState \<Rightarrow> SimState" where
  "seriesVoltageCheck nodes edges node s =
    (case spec node of
       None \<Rightarrow> s
     | Some sp \<Rightarrow>
         if ctype sp = SolarArray then
           (let config = orElseStr (cvStr (customValues node) ''arrayConfig'')
                           (orElseStr (arrayConfig sp) ''parallel'');
                panels = orElse (cvNum (customValues node) ''panelCount'')
                           (orElse (panelCount sp) 2);
                totalVoc = nodeVoc node * panels
            in if config = ''series'' then
                 fold (\<lambda>charger sa.
                     let maxInput = orElse (Option.bind (spec charger) solarInputMax) 32
                     in if totalVoc > maxInput then
                          err (Message ''{L} series Voc ({N}V) exceeds {L} max ({N}V)!''
                                 [label node, label charger] [totalVoc, maxInput]) sa
                        else if totalVoc > maxInput * 0.9 then
                          warn (Message ''{L} series Voc ({N}V) close to {L} max ({N}V)''
                                  [label node, label charger] [totalVoc, maxInput]) sa
                        else sa)
                   (findConnectedByCategory nodes edges (node_id node) [Charging]) s
               else s)
         else s)"

definition wireGaugeCheck :: "DiagramNode \<Rightarrow> SimState \<Rightarrow> SimState" where
  "wireGaugeCheck node s =
    (if specCategory node = Some Load \<or> specCategory node = Some Charging then
       (case nodeStates s (node_id node) of
          None \<Rightarrow> s
        | Some nst \<Rightarrow>
            if current nst > 30 then
              warn (Message ''{L} draws {N}A - ensure adequate wire gauge (>=10 AWG recommended)''
                      [label node] [current nst]) s
            else if current nst > 50 then
              warn (Message ''{L} draws {N}A - ensure adequate wire gauge (>=6 AWG recommended)''
                      [label node] [current nst]) s
            else s)
     else s)"

text \<open>The nested loop over the pairs \<open>i < j\<close> of house batteries.\<close>

fun mismatchPairs :: "(string \<times> real) list \<Rightarrow> Message list" where
  "mismatchPairs [] = []"
| "mismatchPairs (b # bs) =
    concat (map (\<lambda>b'. if \<bar>snd b - snd b'\<bar> > 0.5
                       then [Message ''Voltage mismatch: {L} ({N}V) vs {L} ({N}V)''
                               [fst b, fst b'] [snd b, snd b']]
                       else []) bs)
    @ mismatchPairs bs"

definition voltageMismatchCheck :: "DiagramNode list \<Rightarrow> SimState \<Rightarrow> SimState" where
  "voltageMismatchCheck nodes s =
    (let batteries = filter isBatteryNode nodes;
         houseBatteries =
           filter (\<lambda>b. specType b = Some HouseBattery \<or>
                       Option.bind (spec b) batteryRole = Some ''house'' \<or>
                       (Option.bind (spec b) batteryRole \<noteq> Some ''starter'' \<and>
                        specType b \<noteq> Some StarterBattery)) batteries
     in if length houseBatteries \<ge> 2 then
          s\<lparr>warnings := warnings s @
               mismatchPairs
                 (map (\<lambda>b. (label b, orElse (map_option voltage (nodeStates s (node_id b))) 12))
                    houseBatteries)\<rparr>
        else s)"

definition alternatorLithiumCheck :: "DiagramNode list \<Rightarrow> Edge list \<Rightarrow> DiagramNode \<Rightarrow> SimState \<Rightarrow> SimState" where
  "alternatorLithiumCheck nodes edges node s =
    (if specType node = Some Alternator \<and> isNodeConnected edges (node_id node) then
       (let connectedBatteries = findConnectedByType nodes edges (node_id node) batteryTypes;
            connectedChargers = findConnectedByCategory nodes edges (node_id node) [Charging];
            hasDCDC = list_ex (\<lambda>c. specType c = Some DcDcCharger \<or>
                                    specType c = Some DcDcMpptCharger) connectedChargers
        in fold (\<lambda>batt.
               warnIf (labelIsLithium batt \<and> \<not> hasDCDC)
                 (Message ''{L} directly connected to {L} - consider DC-DC charger for lithium''
                    [label node, label batt] []))
             connectedBatteries s)
     else s)"

definition busOverloadCheck :: "DiagramNode list \<Rightarrow> Edge list \<Rightarrow> DiagramNode \<Rightarrow> SimState \<Rightarrow> SimState" where
  "busOverloadCheck nodes edges node s =
    (if specCategory node = Some Distribution \<and> isNodeConnected edges (node_id node) then
       (let connectedLoads = findConnectedByCategory nodes edges (node_id node) [Load];
            totalBusCurrent = sumLoadCurrent (nodeStates s) connectedLoads;
            busRating = orElse (cvNum (customValues node) ''rating'') 100
        in if totalBusCurrent > busRating then
             err (Message ''{L} overloaded: {N}A exceeds {N}A rating!'' [label node]
                    [totalBusCurrent, busRating]) s
           else if totalBusCurrent > busRating * 0.8 then
             warn (Message ''{L} at {N}% capacity ({N}A / {N}A)'' [label node]
                     [(totalBusCurrent / busRating) * 100, totalBusCurrent, busRating]) s
           else s)
     else s)"

text \<open>All the checks, in the order of the source.\<close>

definition diagnostics ::
  "DiagramNode list \<Rightarrow> Edge list \<Rightarrow> EnvironmentState \<Rightarrow> SimState \<Rightarrow> SimState" where
  "diagnostics nodes edges env s =
    (let d1 = fold (connectionWarnings nodes edges env) nodes s;
         d2 = fold (batteryUseWarnings nodes edges) nodes d1;
         d3 = fold (protectionMissing nodes edges) nodes d2;
         d4 = fold (fuseUndersized edges) nodes d3;
         d5 = fold (solarVoltageCheck nodes edges) nodes d4;
         (totalBatteryCapacity, totalDailyLoadAh) =
           fold (capacityTotals (nodeStates s)) nodes (0, 0);
         d6 = warnIf (totalBatteryCapacity > 0 \<and> totalDailyLoadAh > totalBatteryCapacity * 0.5)
                (Message ''Daily load (~{N}Ah) may exceed safe battery discharge ({N}Ah at 50% DoD)''
                   [] [totalDailyLoadAh, totalBatteryCapacity * 0.5]) d5;
         hasGroundBus = list_ex (\<lambda>n. specCategory n = Some Ground) nodes;
         hasLoads = list_ex (\<lambda>n. specCategory n = Some Load) nodes;
         d7 = warnIf (hasLoads \<and> \<not> hasGroundBus)
                (Message ''No ground/negative bus in diagram - consider adding for complete circuit''
                   [] []) d6;
         d8 = fold (chargeRateCheck nodes edges) nodes d7;
         d9 = fold (fuseNearLimit edges) nodes d8;
         d10 = fold (dischargeRateCheck edges) nodes d9;
         d11 = fold (seriesVoltageCheck nodes edges) nodes d10;
         d12 = warnIf (totalLoad s > 0 \<and> totalGeneration s > 0 \<and> totalBatteryCapacity = 0 \<and>
                       totalLoad s > totalGeneration s)
                 (Message ''Load ({N}W) exceeds generation ({N}W) with no battery backup!''
                    [] [totalLoad s, totalGeneration s]) d11;
         d13 = fold wireGaugeCheck nodes d12;
         d14 = voltageMismatchCheck nodes d13;
         d15 = fold (alternatorLithiumCheck nodes edges) nodes d14
     in fold (busOverloadCheck nodes edges) nodes d15)"

text \<open>
  \<^verbatim>\<open>runSimulation(nodes, edges, environment, previousState, deltaTime)\<close>. The
  defaults of the last three parameters are the caller's business: the model takes
  all five.
\<close>

definition runSimulation ::
  "DiagramNode list \<Rightarrow> Edge list \<Rightarrow> EnvironmentState \<Rightarrow> SystemSimulation option \<Rightarrow> real
     \<Rightarrow> SystemSimulation" where
  "runSimulation nodes edges env previousState deltaTime =
    (let s4 = runPasses nodes edges env previousState deltaTime;
         s = diagnostics nodes edges env s4
     in \<lparr>res_systemVoltage = systemVoltage s,
         res_totalLoad = totalLoad s,
         res_totalGeneration = totalGeneration s,
         res_netPower = totalGeneration s - totalLoad s,
         res_nodes = nodeStates s,
         res_connections = connectionStatesOf edges (systemVoltage s),
         res_warnings = warnings s,
         res_errors = errors s\<rparr>)"

section \<open>Vocabulary of the proofs and example data\<close>

text \<open>The identifiers that occur as an end of some edge.\<close>

definition endpoints :: "Edge list \<Rightarrow> string set" where
  "endpoints edges = set (map source edges) \<union> set (map target edges)"

text \<open>
  What one call of the tracer guarantees: the visited set only grows, the results are
  not pass-through nodes, their identifiers are pairwise different, and all of them
  were visited by this call.
\<close>

definition traceGood :: "string set \<Rightarrow> DiagramNode list \<Rightarrow> string set \<Rightarrow> bool" where
  "traceGood vis r vis' \<longleftrightarrow>
     vis \<subseteq> vis' \<and> list_all (\<lambda>x. \<not> isPassThrough x) r \<and> distinct (map node_id r) \<and>
     set (map node_id r) \<subseteq> vis' - vis"

text \<open>A spec with no optional field set, and a node with no custom value.\<close>

definition plainSpec :: "ComponentType \<Rightarrow> ComponentCategory \<Rightarrow> ComponentSpec" where
  "plainSpec t c =
    \<lparr>ctype = t, category = c, maxCurrent = None, capacity = None, rating = None,
     chargeRate = None, efficiency = None, alternatorInputMin = None,
     alternatorInputMax = None, solarInputMin = None, solarInputMax = None,
     maxSolarWattage = None, maxSolarCurrent = None, wattage = None, voc = None, vmp = None,
     imp = None, panelCount = None, arrayConfig = None, batteryChemistry = None,
     batteryRole = None, maxOutputPower = None, traditionalAltMin = None,
     maxInputVoltage = None, outputVoltageMin = None, outputVoltageMax = None,
     tempCompNonLithium = None, tempCompLithium = None\<rparr>"

definition plainNode :: "string \<Rightarrow> ComponentType \<Rightarrow> ComponentCategory \<Rightarrow> DiagramNode" where
  "plainNode i t c =
    \<lparr>node_id = i, spec = Some (plainSpec t c), label = i, customValues = Map.empty\<rparr>"

definition plainEdge :: "string \<Rightarrow> string \<Rightarrow> string \<Rightarrow> Edge" where
  "plainEdge i a b = \<lparr>edge_id = i, source = a, target = b\<rparr>"

text \<open>An alternator rated 100 A wired to two batteries, with the engine at 1400 RPM.\<close>

definition altExampleNodes :: "DiagramNode list" where
  "altExampleNodes =
    [\<lparr>node_id = ''alt'',
      spec = Some ((plainSpec Alternator PowerSource)\<lparr>maxCurrent := Some 100\<rparr>),
      label = ''alt'', customValues = Map.empty\<rparr>,
     plainNode ''b1'' Battery PowerSource, plainNode ''b2'' Battery PowerSource]"

definition altExampleEdges :: "Edge list" where
  "altExampleEdges = [plainEdge ''e1'' ''alt'' ''b1'', plainEdge ''e2'' ''alt'' ''b2'']"

definition altExampleEnv :: EnvironmentState where
  "altExampleEnv =
    \<lparr>solarIrradiance = 0, ambientTemp = 25, engineRunning = True, alternatorRPM = 1400,
     shoreConnected = False\<rparr>"

text \<open>\<^verbatim>\<open>DEFAULT_ENV\<close>\<close>

definition DEFAULT_ENV :: EnvironmentState where
  "DEFAULT_ENV =
    \<lparr>solarIrradiance = 800, ambientTemp = 25, engineRunning = False, alternatorRPM = 0,
     shoreConnected = False\<rparr>"

text \<open>
  Two unconnected batteries: a 200 Ah lead-acid battery listed first and a 100 Ah
  LiFePO4 battery listed second.
\<close>

definition twoBatteryNodes :: "DiagramNode list" where
  "twoBatteryNodes =
    [\<lparr>node_id = ''A'',
      spec = Some ((plainSpec Battery PowerSource)\<lparr>capacity := Some 200\<rparr>),
      label = ''A'', customValues = Map.empty\<rparr>,
     \<lparr>node_id = ''B'',
      spec = Some ((plainSpec Battery PowerSource)
               \<lparr>capacity := Some 100, batteryChemistry := Some ''lifepo4''\<rparr>),
      label = ''B'', customValues = Map.empty\<rparr>]"

text \<open>
  The diagnostics only append warnings and errors: the rest of the state is the same
  before and after.
\<close>

definition sameCore :: "SimState \<Rightarrow> SimState \<Rightarrow> bool" where
  "sameCore s t \<longleftrightarrow>
     nodeStates s = nodeStates t \<and> batteryCircuits s = batteryCircuits t \<and>
     systemVoltage s = systemVoltage t \<and> totalLoad s = totalLoad t \<and>
     totalGeneration s = totalGeneration t"

text \<open>
  A 100 Ah lead-acid battery with no connection at all, and a previous result in which
  it stands at 55 %.
\<close>

definition loneBatteryNodes :: "DiagramNode list" where
  "loneBatteryNodes =
    [\<lparr>node_id = ''batt'',
      spec = Some ((plainSpec Battery PowerSource)
               \<lparr>capacity := Some 100, batteryChemistry := Some ''lead-acid''\<rparr>),
      label = ''batt'', customValues = Map.empty\<rparr>]"

definition loneBatteryPrev :: SystemSimulation where
  "loneBatteryPrev =
    \<lparr>res_systemVoltage = 12.5, res_totalLoad = 0, res_totalGeneration = 0, res_netPower = 0,
     res_nodes = [''batt'' \<mapsto> (mkState 12.5 0 0 Idle)\<lparr>stateOfCharge := Some 55\<rparr>],
     res_connections = Map.empty, res_warnings = [], res_errors = []\<rparr>"

text \<open>The state of charge that a battery node carries over from the previous result.\<close>

definition previousSoC :: "SystemSimulation option \<Rightarrow> string \<Rightarrow> real" where
  "previousSoC previousState nodeId =
    nullish (Option.bind (prevNode previousState nodeId) stateOfCharge) 80"

text \<open>The entry of a battery at rest: the given state of charge, no current, no power, idle.\<close>

definition restingAt :: "real \<Rightarrow> NodeSimState option \<Rightarrow> bool" where
  "restingAt soc entry =
    (case entry of
       None \<Rightarrow> False
     | Some st \<Rightarrow>
         stateOfCharge st = Some soc \<and> current st = 0 \<and> power st = 0 \<and> state st = Idle)"

text \<open>
  What one traced load adds to the sums of the protection case, given its recorded
  state, and what one traced charger adds, given its entry (a charger of a type that the
  second pass does not evaluate has none).
\<close>

definition activeLoadCurrent :: "NodeSimState \<Rightarrow> real" where
  "activeLoadCurrent st = (if state st = On then current st else 0)"

definition activeChargerCurrent :: "NodeSimState option \<Rightarrow> real" where
  "activeChargerCurrent entry =
    (case entry of
       None \<Rightarrow> 0
     | Some st \<Rightarrow>
         if state st = On \<or> state st = ChargingSt
         then (case outputCurrent st of
                 Some c \<Rightarrow> if c = 0 then current st else c
               | None \<Rightarrow> current st)
         else 0)"

text \<open>
  A battery, a load of 5 A that is switched on, and a fuse between them that is
  manually marked blown; the load is listed before the fuse.
\<close>

definition blownFuseNodes :: "DiagramNode list" where
  "blownFuseNodes =
    [plainNode ''battery'' Battery PowerSource,
     plainNode ''load'' OtherType Load,
     \<lparr>node_id = ''fuse'', spec = Some (plainSpec OtherType Protection), label = ''fuse'',
      customValues = [''isBlown'' \<mapsto> Bool True]\<rparr>]"

definition fuseEdges :: "Edge list" where
  "fuseEdges = [plainEdge ''e1'' ''battery'' ''fuse'', plainEdge ''e2'' ''fuse'' ''load'']"

text \<open>
  A battery, a fuse rated 15 A and a load of 20 A behind it, the load listed before the
  fuse; and the same diagram with the fuse listed before the load.
\<close>

definition fuse15 :: DiagramNode where
  "fuse15 =
    \<lparr>node_id = ''fuse'', spec = Some ((plainSpec OtherType Protection)\<lparr>rating := Some 15\<rparr>),
     label = ''fuse'', customValues = Map.empty\<rparr>"

definition load20 :: DiagramNode where
  "load20 =
    \<lparr>node_id = ''load'', spec = Some ((plainSpec OtherType Load)\<lparr>maxCurrent := Some 20\<rparr>),
     label = ''load'', customValues = Map.empty\<rparr>"

definition overloadNodes :: "DiagramNode list" where
  "overloadNodes = [plainNode ''battery'' Battery PowerSource, load20, fuse15]"

definition overloadNodesFuseFirst :: "DiagramNode list" where
  "overloadNodesFuseFirst = [plainNode ''battery'' Battery PowerSource, fuse15, load20]"

text \<open>
  A battery, a load of 10 A and a fuse between them whose rating override is 0 and whose
  spec has no rating; the load is listed before the fuse.
\<close>

definition load10 :: DiagramNode where
  "load10 =
    \<lparr>node_id = ''load'', spec = Some ((plainSpec OtherType Load)\<lparr>maxCurrent := Some 10\<rparr>),
     label = ''load'', customValues = Map.empty\<rparr>"

definition zeroRatedFuse :: DiagramNode where
  "zeroRatedFuse =
    \<lparr>node_id = ''fuse'', spec = Some (plainSpec OtherType Protection), label = ''fuse'',
     customValues = [''rating'' \<mapsto> Num 0]\<rparr>"

definition zeroRatedNodes :: "DiagramNode list" where
  "zeroRatedNodes = [plainNode ''battery'' Battery PowerSource, load10, zeroRatedFuse]"

section \<open>Verified properties\<close>

subsection \<open>Battery model\<close>

text \<open>
  The lookup of a chemistry gives a profile of the table except for the names inherited
  from \<^verbatim>\<open>Object.prototype\<close>: a key outside the table that is not such a name falls
  back to lead-acid, an inherited name does not.
\<close>

lemma chemistryHasProfile_iff:
  "chemistryHasProfile chem \<longleftrightarrow> chem \<notin> set objectPrototypeKeys"
  by (simp add: chemistryHasProfile_def getChargingProfile_def CHARGING_PROFILES_def
        orElseStr_def objectPrototypeKeys_def)

lemma getChargingProfile_fallback:
  "getChargingProfile (Some ''nimh'') = Profile leadAcidProfile"
  "getChargingProfile None = Profile leadAcidProfile"
  "getChargingProfile (Some ''toString'') = InheritedMember"
  by (simp_all add: getChargingProfile_def CHARGING_PROFILES_def orElseStr_def
        objectPrototypeKeys_def)

lemma batt_stateOfCharge_eq:
  "batt_stateOfCharge (calculateBatteryState sp netCurrent currentSoC deltaTime prev) =
     max 0 (min 100
       (currentSoC + ((netCurrent * deltaTime) / 3600 / orElse (capacity sp) 100) * 100))"
  unfolding calculateBatteryState_def Let_def by (simp only: BatteryResult.select_convs)

lemma batt_state_eq:
  "batt_state (calculateBatteryState sp netCurrent currentSoC deltaTime prev) =
     batteryStatus prev netCurrent"
  unfolding calculateBatteryState_def Let_def by (simp only: BatteryResult.select_convs)

lemma batteryStatus_idem:
  "batteryStatus (Some (batteryStatus prev i)) i = batteryStatus prev i"
  by (simp add: batteryStatus_def enterThreshold_def exitThreshold_def)

text \<open>
  C5. With a net current whose magnitude is the exit threshold, two consecutive ticks
  give the same status: the status after the first tick, fed back as the previous
  status together with the new state of charge, is returned again by the second tick.
\<close>

theorem hysteresis_stable:
  assumes "\<bar>netCurrent\<bar> = exitThreshold"
  shows "batt_state (calculateBatteryState sp netCurrent
            (batt_stateOfCharge (calculateBatteryState sp netCurrent soc deltaTime prev))
            deltaTime
            (Some (batt_state (calculateBatteryState sp netCurrent soc deltaTime prev))))
         = batt_state (calculateBatteryState sp netCurrent soc deltaTime prev)"
  unfolding batt_state_eq by (rule batteryStatus_idem)

theorem hysteresis_stable_witness:
  "\<bar>0.3 :: real\<bar> = exitThreshold \<and>
   batt_state (calculateBatteryState (plainSpec Battery PowerSource) 0.3 80 1
      (Some ChargingSt)) = Idle \<and>
   batt_state (calculateBatteryState (plainSpec Battery PowerSource) 0.3
      (batt_stateOfCharge
         (calculateBatteryState (plainSpec Battery PowerSource) 0.3 80 1 (Some ChargingSt)))
      1
      (Some (batt_state
         (calculateBatteryState (plainSpec Battery PowerSource) 0.3 80 1 (Some ChargingSt)))))
    = Idle"
proof -
  have h: "\<bar>0.3 :: real\<bar> = exitThreshold" by (simp add: exitThreshold_def)
  have i: "batt_state (calculateBatteryState (plainSpec Battery PowerSource) 0.3 80 1
             (Some ChargingSt)) = Idle"
    unfolding batt_state_eq by (simp add: batteryStatus_def exitThreshold_def)
  from hysteresis_stable[OF h, of "plainSpec Battery PowerSource" 80 1 "Some ChargingSt"] h i
  show ?thesis by simp
qed

subsection \<open>Connectivity tracer\<close>

lemma finite_endpoints: "finite (endpoints edges)"
  by (simp add: endpoints_def)

lemma card_endpoints: "card (endpoints edges) \<le> 2 * length edges"
proof -
  have "card (endpoints edges) \<le> card (set (map source edges)) + card (set (map target edges))"
    unfolding endpoints_def by (rule card_Un_le)
  also have "\<dots> \<le> length (map source edges) + length (map target edges)"
    by (intro add_mono card_length)
  finally show ?thesis by simp
qed

lemma getDirectConnections_endpoints:
  "set (getDirectConnections edges s) \<subseteq> endpoints edges"
  by (auto simp: getDirectConnections_def endpoints_def split: if_splits)

lemma getDirectConnections_start:
  "c \<in> set (getDirectConnections edges s) \<Longrightarrow> s \<in> endpoints edges"
  by (auto simp: getDirectConnections_def endpoints_def split: if_splits)

lemma getDirectConnections_isolated:
  "\<not> isNodeConnected edges s \<Longrightarrow> getDirectConnections edges s = []"
  by (induction edges) (auto simp: getDirectConnections_def isNodeConnected_def)

lemma traceGood_refl: "traceGood vis [] vis"
  by (simp add: traceGood_def)

lemma traceGood_trans:
  assumes "traceGood v0 r1 v1" and "traceGood v1 r2 v2"
  shows "traceGood v0 (r1 @ r2) v2"
proof -
  have "set (map node_id r1) \<inter> set (map node_id r2) = {}"
    using assms unfolding traceGood_def by blast
  moreover have "set (map node_id r1) \<subseteq> v2 - v0" "set (map node_id r2) \<subseteq> v2 - v0"
    using assms unfolding traceGood_def by blast+
  moreover have "v0 \<subseteq> v2"
    using assms unfolding traceGood_def by blast
  ultimately show ?thesis
    using assms unfolding traceGood_def by simp
qed

lemma find_node_id: "find (\<lambda>nd. node_id nd = c) nodes = Some x \<Longrightarrow> node_id x = c"
  by (auto simp: find_Some_iff)

lemma traceStep_None [simp]: "traceStep recurse nodes c None = None"
  by (simp add: traceStep_def)

lemma fold_traceStep_None [simp]: "fold (traceStep recurse nodes) cs None = None"
  by (induction cs) simp_all

lemma traceStep_good:
  assumes rec: "\<And>c vis r vis'. recurse c vis = Some (r, vis') \<Longrightarrow> traceGood vis r vis'"
    and step: "traceStep recurse nodes c (Some (r0, v0)) = Some (r, v)"
  shows "\<exists>r1. r = r0 @ r1 \<and> traceGood v0 r1 v"
proof (cases "c \<in> v0")
  case True
  with step show ?thesis by (simp add: traceStep_def traceGood_refl)
next
  case notin: False
  show ?thesis
  proof (cases "find (\<lambda>nd. node_id nd = c) nodes")
    case None
    with step notin show ?thesis by (simp add: traceStep_def traceGood_refl)
  next
    case (Some x)
    show ?thesis
    proof (cases "isPassThrough x")
      case True
      with step notin Some obtain sub where "recurse c v0 = Some (sub, v)" "r = r0 @ sub"
        by (auto simp: traceStep_def split: option.splits)
      with rec show ?thesis by blast
    next
      case False
      with step notin Some have "r = r0 @ [x]" "v = insert c v0"
        by (auto simp: traceStep_def)
      moreover have "node_id x = c" using Some by (rule find_node_id)
      ultimately show ?thesis using False notin by (auto simp: traceGood_def)
    qed
  qed
qed

lemma fold_traceStep_good:
  assumes rec: "\<And>c vis r vis'. recurse c vis = Some (r, vis') \<Longrightarrow> traceGood vis r vis'"
  shows "fold (traceStep recurse nodes) cs (Some (r0, v0)) = Some (r, v)
         \<Longrightarrow> \<exists>r1. r = r0 @ r1 \<and> traceGood v0 r1 v"
proof (induction cs arbitrary: r0 v0)
  case Nil
  then show ?case by (simp add: traceGood_refl)
next
  case (Cons c cs)
  show ?case
  proof (cases "traceStep recurse nodes c (Some (r0, v0))")
    case None
    with Cons.prems show ?thesis by simp
  next
    case (Some p)
    obtain ra va where p: "p = (ra, va)" by (cases p)
    from Some p have st: "traceStep recurse nodes c (Some (r0, v0)) = Some (ra, va)" by simp
    have "\<exists>r1. ra = r0 @ r1 \<and> traceGood v0 r1 va"
      by (rule traceStep_good[OF _ st]) (rule rec)
    then obtain r1 where r1: "ra = r0 @ r1" "traceGood v0 r1 va" by blast
    from Cons.prems Some p have "fold (traceStep recurse nodes) cs (Some (ra, va)) = Some (r, v)"
      by simp
    from Cons.IH[OF this] obtain r2 where r2: "r = ra @ r2" "traceGood va r2 v" by blast
    from r1 r2 show ?thesis by (auto intro: traceGood_trans)
  qed
qed

lemma traceFuel_good:
  "traceFuel n nodes edges s vis = Some (r, vis') \<Longrightarrow> traceGood vis r vis'"
proof (induction n arbitrary: s vis r vis')
  case 0
  then show ?case by simp
next
  case (Suc n)
  show ?case
  proof (cases "s \<in> vis")
    case True
    with Suc.prems show ?thesis by (simp add: traceGood_refl)
  next
    case False
    with Suc.prems have
      "fold (traceStep (traceFuel n nodes edges) nodes) (getDirectConnections edges s)
         (Some ([], insert s vis)) = Some (r, vis')" by simp
    from fold_traceStep_good[OF Suc.IH this] have "traceGood (insert s vis) r vis'" by simp
    then show ?thesis by (auto simp: traceGood_def)
  qed
qed

lemma traceStep_total:
  assumes rec: "\<And>c. c \<in> endpoints edges \<Longrightarrow> \<exists>p. recurse c v0 = Some p"
    and c: "c \<in> endpoints edges"
  shows "\<exists>p. traceStep recurse nodes c (Some (r0, v0)) = Some p"
  using rec[OF c] by (auto simp: traceStep_def split: option.splits)

lemma fold_traceStep_total:
  assumes good: "\<And>c vis r vis'. recurse c vis = Some (r, vis') \<Longrightarrow> traceGood vis r vis'"
    and rec: "\<And>c vis. v0 \<subseteq> vis \<Longrightarrow> \<exists>p. recurse c vis = Some p"
  shows "\<exists>p. fold (traceStep recurse nodes) cs (Some (r0, v0)) = Some p"
  using rec
proof (induction cs arbitrary: r0 v0)
  case Nil
  then show ?case by simp
next
  case (Cons c cs)
  from Cons.prems[of v0 c] obtain p0 where "recurse c v0 = Some p0" by auto
  then have "\<exists>q. traceStep recurse nodes c (Some (r0, v0)) = Some q"
    by (cases p0) (simp add: traceStep_def split: option.splits)
  then obtain ra va where
    st: "traceStep recurse nodes c (Some (r0, v0)) = Some (ra, va)" by auto
  have "\<exists>r1. ra = r0 @ r1 \<and> traceGood v0 r1 va"
    by (rule traceStep_good[OF _ st]) (rule good)
  then have "v0 \<subseteq> va" by (auto simp: traceGood_def)
  then have "\<And>c vis. va \<subseteq> vis \<Longrightarrow> \<exists>p. recurse c vis = Some p"
    using Cons.prems by (meson order_trans)
  from Cons.IH[OF this] st show ?case by simp
qed

lemma traceFuel_total_aux:
  "card (endpoints edges - vis) < n \<Longrightarrow> \<exists>p. traceFuel n nodes edges s vis = Some p"
proof (induction n arbitrary: s vis)
  case 0
  then show ?case by simp
next
  case (Suc n)
  show ?case
  proof (cases "s \<in> vis")
    case True
    then show ?thesis by simp
  next
    case notin: False
    show ?thesis
    proof (cases "getDirectConnections edges s = []")
      case True
      with notin show ?thesis by simp
    next
      case False
      then obtain c where "c \<in> set (getDirectConnections edges s)"
        by (cases "getDirectConnections edges s") auto
      then have s: "s \<in> endpoints edges" by (rule getDirectConnections_start)
      have "card (endpoints edges - insert s vis) < card (endpoints edges - vis)"
        using s notin finite_endpoints[of edges]
        by (intro psubset_card_mono) auto
      with Suc.prems have lt: "card (endpoints edges - insert s vis) < n" by simp
      have "\<exists>p. traceFuel n nodes edges c' vis' = Some p" if "insert s vis \<subseteq> vis'" for c' vis'
      proof -
        have "card (endpoints edges - vis') \<le> card (endpoints edges - insert s vis)"
          using that finite_endpoints[of edges] by (intro card_mono) auto
        with lt show ?thesis by (intro Suc.IH) simp
      qed
      from fold_traceStep_total[of "traceFuel n nodes edges" "insert s vis", OF traceFuel_good this]
      show ?thesis using notin by simp
    qed
  qed
qed

lemma traceFuel_total:
  "\<exists>r vis'. traceFuel (Suc (2 * length edges)) nodes edges s vis = Some (r, vis')"
proof -
  have "card (endpoints edges - vis) \<le> card (endpoints edges)"
    by (intro card_mono finite_endpoints) auto
  with card_endpoints[of edges] have "card (endpoints edges - vis) < Suc (2 * length edges)"
    by simp
  from traceFuel_total_aux[OF this] show ?thesis by auto
qed

lemma traceAllConnections_good:
  "\<exists>vis'. traceGood {} (traceAllConnections nodes edges s) vis'"
proof -
  from traceFuel_total[of edges nodes s "{}"] obtain r vis' where
    t: "traceFuel (Suc (2 * length edges)) nodes edges s {} = Some (r, vis')" by blast
  then have "traceAllConnections nodes edges s = r"
    by (simp add: traceAllConnections_def)
  with traceFuel_good[OF t] show ?thesis by blast
qed

lemma traceAllConnections_isolated:
  "\<not> isNodeConnected edges s \<Longrightarrow> traceAllConnections nodes edges s = []"
  by (simp add: traceAllConnections_def getDirectConnections_isolated)

lemma trace_chain:
  assumes "distinct [b, f, u, l]"
    and "node_id nb = b" "node_id nf = f" "node_id nu = u" "node_id nl = l"
    and "specCategory nf = Some Protection" "specCategory nu = Some Distribution"
    and "specCategory nl = Some Load"
  shows "traceAllConnections [nb, nf, nu, nl]
           [plainEdge e1 b f, plainEdge e2 f u, plainEdge e3 u l] b = [nl]"
  using assms
  by (auto simp add: traceAllConnections_def eval_nat_numeral getDirectConnections_def
        plainEdge_def traceStep_def isPassThrough_def)

text \<open>
  C2. For a chain battery - fuse - bus - load (four different identifiers, the fuse of
  category protection, the bus of category distribution, the load of category load),
  the trace from the battery is exactly the load. For every graph and every start node:
  no returned node has a pass-through category, the identifiers of the returned nodes
  are pairwise different, and a start node that no edge touches gives the empty list.
  The tracer always returns (\<open>traceFuel_total\<close>).
\<close>

theorem tracer_correct:
  "(distinct [b, f, u, l] \<and> node_id nb = b \<and> node_id nf = f \<and> node_id nu = u \<and>
    node_id nl = l \<and> specCategory nf = Some Protection \<and>
    specCategory nu = Some Distribution \<and> specCategory nl = Some Load
    \<longrightarrow> traceAllConnections [nb, nf, nu, nl]
          [plainEdge e1 b f, plainEdge e2 f u, plainEdge e3 u l] b = [nl])
   \<and> list_all (\<lambda>x. \<not> isPassThrough x) (traceAllConnections nodes edges s)
   \<and> distinct (map node_id (traceAllConnections nodes edges s))
   \<and> (\<not> isNodeConnected edges s \<longrightarrow> traceAllConnections nodes edges s = [])"
proof -
  from traceAllConnections_good[of nodes edges s] obtain vis' where
    "traceGood {} (traceAllConnections nodes edges s) vis'" by blast
  then have "list_all (\<lambda>x. \<not> isPassThrough x) (traceAllConnections nodes edges s)"
    and "distinct (map node_id (traceAllConnections nodes edges s))"
    by (simp_all add: traceGood_def)
  then show ?thesis
    using trace_chain[of b f u l nb nf nu nl e1 e2 e3]
      traceAllConnections_isolated[of edges s nodes]
    by blast
qed

theorem tracer_correct_witness:
  "traceAllConnections
     [plainNode ''battery'' Battery PowerSource, plainNode ''fuse'' OtherType Protection,
      plainNode ''bus'' OtherType Distribution, plainNode ''load'' OtherType Load]
     [plainEdge ''e1'' ''battery'' ''fuse'', plainEdge ''e2'' ''fuse'' ''bus'',
      plainEdge ''e3'' ''bus'' ''load''] ''battery''
   = [plainNode ''load'' OtherType Load]
   \<and> traceAllConnections
       [plainNode ''battery'' Battery PowerSource, plainNode ''fuse'' OtherType Protection,
        plainNode ''bus'' OtherType Distribution, plainNode ''load'' OtherType Load]
       [plainEdge ''e1'' ''battery'' ''fuse'', plainEdge ''e2'' ''fuse'' ''bus'',
        plainEdge ''e3'' ''bus'' ''load''] ''spare'' = []"
  using tracer_correct[of "''battery''" "''fuse''" "''bus''" "''load''"
      "plainNode ''battery'' Battery PowerSource" "plainNode ''fuse'' OtherType Protection"
      "plainNode ''bus'' OtherType Distribution" "plainNode ''load'' OtherType Load"
      "''e1''" "''e2''" "''e3''"
      "[plainNode ''battery'' Battery PowerSource, plainNode ''fuse'' OtherType Protection,
        plainNode ''bus'' OtherType Distribution, plainNode ''load'' OtherType Load]"
      "[plainEdge ''e1'' ''battery'' ''fuse'', plainEdge ''e2'' ''fuse'' ''bus'',
        plainEdge ''e3'' ''bus'' ''load'']"
      "''spare''"]
  by (simp add: plainNode_def plainSpec_def plainEdge_def specCategory_def isNodeConnected_def)

subsection \<open>Charger stage machine\<close>

lemma charger_current_eq:
  "current (calculateDCDCMPPTStateWithChemistry sp altV solV solP battV soc cap chem starterV temp) =
    (if altV > orElse (maxInputVoltage sp) 30 then 0
     else min (snd (chargeStageStep (isLithiumChemistry chem) soc
                 (cl_outputCurrent (chargerInputStage sp altV solV solP battV cap chem starterV))))
              (powerLimitedMaxCurrent sp battV cap chem))"
  unfolding calculateDCDCMPPTStateWithChemistry_def Let_def
  by (simp only: NodeSimState.select_convs)

lemma charger_outputCurrent_eq:
  "outputCurrent (calculateDCDCMPPTStateWithChemistry sp altV solV solP battV soc cap chem starterV temp) =
    Some (current (calculateDCDCMPPTStateWithChemistry sp altV solV solP battV soc cap chem starterV temp))"
  unfolding calculateDCDCMPPTStateWithChemistry_def Let_def
  by (simp only: NodeSimState.select_convs)

lemma charger_power_eq:
  "power (calculateDCDCMPPTStateWithChemistry sp altV solV solP battV soc cap chem starterV temp) =
     min (snd (chargeStageStep (isLithiumChemistry chem) soc
                 (cl_outputCurrent (chargerInputStage sp altV solV solP battV cap chem starterV))))
         (powerLimitedMaxCurrent sp battV cap chem) * battV"
  unfolding calculateDCDCMPPTStateWithChemistry_def Let_def
  by (simp only: NodeSimState.select_convs)

lemma charger_chargeStage_eq:
  "chargeStage (calculateDCDCMPPTStateWithChemistry sp altV solV solP battV soc cap chem starterV temp) =
    Some (if altV > orElse (maxInputVoltage sp) 30 then ''overvoltage protection''
          else fst (chargeStageStep (isLithiumChemistry chem) soc
                 (cl_outputCurrent (chargerInputStage sp altV solV solP battV cap chem starterV))))"
  unfolding calculateDCDCMPPTStateWithChemistry_def Let_def
  by (simp only: NodeSimState.select_convs)

lemma active_limit_pos:
  assumes "0 < cl_outputCurrent (chargerInputStage sp altV solV solP battV cap chem starterV)"
  shows "0 < powerLimitedMaxCurrent sp battV cap chem"
proof (rule ccontr)
  assume "\<not> 0 < powerLimitedMaxCurrent sp battV cap chem"
  then have le: "powerLimitedMaxCurrent sp battV cap chem \<le> 0" by simp
  have "cl_outputCurrent (chargerInputStage sp altV solV solP battV cap chem starterV) \<le> 0"
    unfolding chargerInputStage_def Let_def using le
    by (simp add: min_def max_def split: if_splits)
  with assms show False by simp
qed


lemma chargeStageStep_lithium:
  "0 < c \<Longrightarrow> chargeStageStep True soc c =
     (if soc < 95 then (''bulk (CC)'', c)
      else if soc < 100 then (''absorption (CV)'', c * ((100 - soc) / 5))
      else (''full - stopped'', 0))"
  by (simp add: chargeStageStep_def)

text \<open>
  C4. For a lithium or LiFePO4 target and a charger that is otherwise active (its output
  current before the charging algorithm is positive): at a state of charge of 100 or
  more the output current, the reported current and the power are 0 in the same call,
  and the stage is 'full - stopped'; below 95 the stage is 'bulk (CC)' at the full
  allowed current; from 95 to below 100 the stage is 'absorption (CV)' with the current
  scaled by (100 - SOC) / 5; the stage is never 'float'. The allowed current is capped by
  \<open>powerLimitedMaxCurrent\<close>; the stage names and the non-zero currents are those of
  a charger that is not in overvoltage protection, which overrides them.
\<close>

theorem lithium_charge_stages:
  fixes sp altV solV solP battV soc cap chem starterV temp
  defines "st \<equiv> calculateDCDCMPPTStateWithChemistry sp altV solV solP battV soc cap chem
                   starterV temp"
    and "pre \<equiv> cl_outputCurrent (chargerInputStage sp altV solV solP battV cap chem starterV)"
    and "limitA \<equiv> powerLimitedMaxCurrent sp battV cap chem"
    and "overvoltage \<equiv> altV > orElse (maxInputVoltage sp) 30"
  assumes lith: "chem = ''lithium'' \<or> chem = ''lifepo4''"
    and active: "0 < pre"
  shows "(100 \<le> soc \<longrightarrow>
            current st = 0 \<and> outputCurrent st = Some 0 \<and> power st = 0 \<and>
            (\<not> overvoltage \<longrightarrow> chargeStage st = Some ''full - stopped''))
       \<and> (soc < 95 \<and> \<not> overvoltage \<longrightarrow>
            chargeStage st = Some ''bulk (CC)'' \<and> current st = min pre limitA)
       \<and> (95 \<le> soc \<and> soc < 100 \<and> \<not> overvoltage \<longrightarrow>
            chargeStage st = Some ''absorption (CV)'' \<and>
            current st = min (pre * ((100 - soc) / 5)) limitA)
       \<and> chargeStage st \<noteq> Some ''float''"
proof -
  have li: "isLithiumChemistry chem" using lith by (simp add: isLithiumChemistry_def)
  have limitpos: "0 < limitA" using active unfolding pre_def limitA_def by (rule active_limit_pos)
  have step: "chargeStageStep (isLithiumChemistry chem) soc pre =
     (if soc < 95 then (''bulk (CC)'', pre)
      else if soc < 100 then (''absorption (CV)'', pre * ((100 - soc) / 5))
      else (''full - stopped'', 0))"
    using li active by (simp add: chargeStageStep_lithium)
  have cur: "current st = (if overvoltage then 0
      else min (snd (chargeStageStep (isLithiumChemistry chem) soc pre)) limitA)"
    unfolding st_def pre_def limitA_def overvoltage_def by (rule charger_current_eq)
  have out: "outputCurrent st = Some (current st)"
    unfolding st_def by (rule charger_outputCurrent_eq)
  have pw: "power st = min (snd (chargeStageStep (isLithiumChemistry chem) soc pre)) limitA * battV"
    unfolding st_def pre_def limitA_def by (rule charger_power_eq)
  have stage: "chargeStage st = Some (if overvoltage then ''overvoltage protection''
      else fst (chargeStageStep (isLithiumChemistry chem) soc pre))"
    unfolding st_def pre_def overvoltage_def by (rule charger_chargeStage_eq)
  have a: "100 \<le> soc \<longrightarrow>
            current st = 0 \<and> outputCurrent st = Some 0 \<and> power st = 0 \<and>
            (\<not> overvoltage \<longrightarrow> chargeStage st = Some ''full - stopped'')"
    using limitpos by (simp add: cur out pw stage step)
  have b: "soc < 95 \<and> \<not> overvoltage \<longrightarrow>
            chargeStage st = Some ''bulk (CC)'' \<and> current st = min pre limitA"
    by (simp add: cur stage step)
  have c: "95 \<le> soc \<and> soc < 100 \<and> \<not> overvoltage \<longrightarrow>
            chargeStage st = Some ''absorption (CV)'' \<and>
            current st = min (pre * ((100 - soc) / 5)) limitA"
    by (simp add: cur stage step)
  have d: "chargeStage st \<noteq> Some ''float''"
    by (simp add: stage step)
  from a b c d show ?thesis by blast
qed

lemma example_pre:
  "cl_outputCurrent (chargerInputStage (plainSpec DcDcMpptCharger Charging) 0 18 100 13 100
     ''lifepo4'' 0) = 94 / 13"
  by (simp add: chargerInputStage_def powerLimitedMaxCurrent_def plainSpec_def orElse_def
        getChargingProfile_def CHARGING_PROFILES_def profileFields_def orElseStr_def
        lifepo4Profile_def Let_def)

lemma example_lim:
  "powerLimitedMaxCurrent (plainSpec DcDcMpptCharger Charging) 13 100 ''lifepo4'' = 30"
  by (simp add: powerLimitedMaxCurrent_def plainSpec_def orElse_def
        getChargingProfile_def CHARGING_PROFILES_def profileFields_def orElseStr_def
        lifepo4Profile_def Let_def)

theorem lithium_charge_stages_witness:
  "current (calculateDCDCMPPTStateWithChemistry (plainSpec DcDcMpptCharger Charging)
      0 18 100 13 100 100 ''lifepo4'' 0 25) = 0
   \<and> chargeStage (calculateDCDCMPPTStateWithChemistry (plainSpec DcDcMpptCharger Charging)
      0 18 100 13 100 100 ''lifepo4'' 0 25) = Some ''full - stopped''
   \<and> chargeStage (calculateDCDCMPPTStateWithChemistry (plainSpec DcDcMpptCharger Charging)
      0 18 100 13 50 100 ''lifepo4'' 0 25) = Some ''bulk (CC)''
   \<and> current (calculateDCDCMPPTStateWithChemistry (plainSpec DcDcMpptCharger Charging)
      0 18 100 13 50 100 ''lifepo4'' 0 25) = 94 / 13
   \<and> chargeStage (calculateDCDCMPPTStateWithChemistry (plainSpec DcDcMpptCharger Charging)
      0 18 100 13 98 100 ''lifepo4'' 0 25) = Some ''absorption (CV)''
   \<and> current (calculateDCDCMPPTStateWithChemistry (plainSpec DcDcMpptCharger Charging)
      0 18 100 13 98 100 ''lifepo4'' 0 25) = 94 / 13 * (2 / 5)"
proof -
  have chem: "''lifepo4'' = ''lithium'' \<or> ''lifepo4'' = ''lifepo4''" by simp
  have active: "0 < cl_outputCurrent (chargerInputStage (plainSpec DcDcMpptCharger Charging)
      0 18 100 13 100 ''lifepo4'' 0)" by (simp add: example_pre)
  have nofault: "\<not> (0::real) > orElse (maxInputVoltage (plainSpec DcDcMpptCharger Charging)) 30"
    by (simp add: plainSpec_def orElse_def)
  from lithium_charge_stages[OF chem active, of 100 25]
       lithium_charge_stages[OF chem active, of 50 25]
       lithium_charge_stages[OF chem active, of 98 25] nofault
  show ?thesis by (simp add: example_pre example_lim)
qed

subsection \<open>Alternator\<close>

lemma setNode_fields [simp]:
  "nodeStates (setNode i st s) = (nodeStates s)(i \<mapsto> st)"
  "batteryCircuits (setNode i st s) = batteryCircuits s"
  "systemVoltage (setNode i st s) = systemVoltage s"
  "totalLoad (setNode i st s) = totalLoad s"
  "totalGeneration (setNode i st s) = totalGeneration s"
  "warnings (setNode i st s) = warnings s"
  "errors (setNode i st s) = errors s"
  by (simp_all add: setNode_def)

lemma fold_addGeneration:
  "distinct (map node_id bs) \<Longrightarrow>
   fold (\<lambda>b. addGeneration (node_id b) p) bs m i =
     (if i \<in> node_id ` set bs
      then map_option (\<lambda>c. c\<lparr>generation := generation c + p\<rparr>) (m i)
      else m i)"
proof (induction bs arbitrary: m)
  case Nil
  then show ?case by simp
next
  case (Cons b bs)
  then show ?case
    by (auto simp: addGeneration_def split: option.splits)
qed

lemma distinct_findConnectedByType:
  "distinct (map node_id (findConnectedByType nodes edges i types))"
proof -
  from traceAllConnections_good[of nodes edges i] have
    "distinct (map node_id (traceAllConnections nodes edges i))"
    by (auto simp: traceGood_def)
  then show ?thesis
    unfolding findConnectedByType_def by (rule distinct_map_filter)
qed

lemma pass1Node_alternator:
  assumes "spec node = Some sp" "category sp = PowerSource" "ctype sp = Alternator"
  shows "totalGeneration (pass1Node nodes edges env prev node s) =
           totalGeneration s +
             (if engineRunning env \<and> isConnectedToBattery nodes edges (node_id node)
              then out_power (calculateAlternatorOutput sp (alternatorRPM env)) else 0)"
    and "batteryCircuits (pass1Node nodes edges env prev node s) =
           (if engineRunning env \<and> isConnectedToBattery nodes edges (node_id node)
            then fold (\<lambda>battery. addGeneration (node_id battery)
                    (out_power (calculateAlternatorOutput sp (alternatorRPM env)) /
                     real (length (findConnectedByType nodes edges (node_id node) batteryTypes))))
                   (findConnectedByType nodes edges (node_id node) batteryTypes)
                   (batteryCircuits s)
            else batteryCircuits s)"
  using assms by (simp_all add: pass1Node_def isBatteryType_def Let_def)

lemma alternator_output:
  "rpm < 800 \<Longrightarrow> calculateAlternatorOutput sp rpm =
      \<lparr>out_voltage = 0, out_current = 0, out_power = 0\<rparr>"
  "800 \<le> rpm \<Longrightarrow> calculateAlternatorOutput sp rpm =
      \<lparr>out_voltage = 14.4,
       out_current = orElse (maxCurrent sp) 100 * min 1 ((rpm - 800) / 1200),
       out_power = 14.4 * (orElse (maxCurrent sp) 100 * min 1 ((rpm - 800) / 1200))\<rparr>"
  by (simp_all add: calculateAlternatorOutput_def Let_def)

text \<open>
  C6. For every alternator node (category power-source, type alternator): its output is
  zero below 800 RPM; from 800 RPM on the voltage is 14.4 V and the current is the rated
  current (\<^verbatim>\<open>spec.maxCurrent || 100\<close>) times min(1, (rpm - 800) / 1200), so a 100 A
  alternator at 1400 RPM gives 50 A. Its step of the first pass adds the output power
  to the total generation exactly when the engine-running flag is set and the
  alternator traces to at least one battery; then the accumulator of every traced
  battery gets the power divided by the number of traced batteries, and no other
  accumulator changes.
\<close>

theorem alternator_generation:
  fixes nodes edges env prev node s sp
  defines "alt \<equiv> calculateAlternatorOutput sp (alternatorRPM env)"
    and "s' \<equiv> pass1Node nodes edges env prev node s"
    and "traced \<equiv> findConnectedByType nodes edges (node_id node) batteryTypes"
  assumes "spec node = Some sp" "category sp = PowerSource" "ctype sp = Alternator"
  shows "(alternatorRPM env < 800 \<longrightarrow>
            out_voltage alt = 0 \<and> out_current alt = 0 \<and> out_power alt = 0)
       \<and> (800 \<le> alternatorRPM env \<longrightarrow>
            out_voltage alt = 14.4 \<and>
            out_current alt =
              orElse (maxCurrent sp) 100 * min 1 ((alternatorRPM env - 800) / 1200) \<and>
            out_power alt = 14.4 * out_current alt)
       \<and> (maxCurrent sp = Some 100 \<and> alternatorRPM env = 1400 \<longrightarrow> out_current alt = 50)
       \<and> totalGeneration s' =
            totalGeneration s + (if engineRunning env \<and> traced \<noteq> [] then out_power alt else 0)
       \<and> (\<forall>i. batteryCircuits s' i =
            (if engineRunning env \<and> i \<in> node_id ` set traced
             then map_option
                    (\<lambda>c. c\<lparr>generation := generation c + out_power alt / real (length traced)\<rparr>)
                    (batteryCircuits s i)
             else batteryCircuits s i))"
proof -
  have conn: "isConnectedToBattery nodes edges (node_id node) \<longleftrightarrow> traced \<noteq> []"
    by (simp add: isConnectedToBattery_def traced_def)
  have a: "alternatorRPM env < 800 \<longrightarrow>
            out_voltage alt = 0 \<and> out_current alt = 0 \<and> out_power alt = 0"
    by (simp add: alt_def alternator_output)
  have b: "800 \<le> alternatorRPM env \<longrightarrow>
            out_voltage alt = 14.4 \<and>
            out_current alt =
              orElse (maxCurrent sp) 100 * min 1 ((alternatorRPM env - 800) / 1200) \<and>
            out_power alt = 14.4 * out_current alt"
    by (simp add: alt_def alternator_output)
  have c: "maxCurrent sp = Some 100 \<and> alternatorRPM env = 1400 \<longrightarrow> out_current alt = 50"
    by (simp add: alt_def alternator_output orElse_def)
  have d: "totalGeneration s' =
            totalGeneration s + (if engineRunning env \<and> traced \<noteq> [] then out_power alt else 0)"
    unfolding s'_def alt_def using pass1Node_alternator(1)[OF assms(4-6)] conn by simp
  have e: "batteryCircuits s' i =
            (if engineRunning env \<and> i \<in> node_id ` set traced
             then map_option
                    (\<lambda>c. c\<lparr>generation := generation c + out_power alt / real (length traced)\<rparr>)
                    (batteryCircuits s i)
             else batteryCircuits s i)" for i
  proof (cases "engineRunning env \<and> traced \<noteq> []")
    case True
    then have "batteryCircuits s' =
        fold (\<lambda>battery. addGeneration (node_id battery) (out_power alt / real (length traced)))
          traced (batteryCircuits s)"
      unfolding s'_def alt_def traced_def
      using pass1Node_alternator(2)[OF assms(4-6)] conn by (simp add: traced_def)
    moreover have "distinct (map node_id traced)"
      unfolding traced_def by (rule distinct_findConnectedByType)
    ultimately show ?thesis using True by (simp add: fold_addGeneration)
  next
    case False
    then have "batteryCircuits s' = batteryCircuits s"
      unfolding s'_def using pass1Node_alternator(2)[OF assms(4-6)] conn by auto
    with False show ?thesis by auto
  qed
  from a b c d e show ?thesis by blast
qed


lemma altExample_traced:
  "findConnectedByType altExampleNodes altExampleEdges ''alt'' batteryTypes =
     [plainNode ''b1'' Battery PowerSource, plainNode ''b2'' Battery PowerSource]"
  by (simp add: findConnectedByType_def traceAllConnections_def eval_nat_numeral
        getDirectConnections_def altExampleNodes_def altExampleEdges_def plainEdge_def
        plainNode_def plainSpec_def traceStep_def isPassThrough_def specCategory_def
        specType_def batteryTypes_def)

lemma altExample_circuits:
  "batteryCircuits (initState altExampleNodes) ''b1'' = Some \<lparr>generation = 0, load = 0\<rparr>"
  "batteryCircuits (initState altExampleNodes) ''b2'' = Some \<lparr>generation = 0, load = 0\<rparr>"
  by (simp_all add: initState_def initCircuits_def altExampleNodes_def isBatteryNode_def
        specType_def plainNode_def plainSpec_def)

theorem alternator_generation_witness:
  "out_current (calculateAlternatorOutput
      ((plainSpec Alternator PowerSource)\<lparr>maxCurrent := Some 100\<rparr>) 1400) = 50
   \<and> totalGeneration (pass1Node altExampleNodes altExampleEdges altExampleEnv None
        (hd altExampleNodes) (initState altExampleNodes)) = 720
   \<and> batteryCircuits (pass1Node altExampleNodes altExampleEdges altExampleEnv None
        (hd altExampleNodes) (initState altExampleNodes)) ''b1''
      = Some \<lparr>generation = 360, load = 0\<rparr>
   \<and> batteryCircuits (pass1Node altExampleNodes altExampleEdges altExampleEnv None
        (hd altExampleNodes) (initState altExampleNodes)) ''b2''
      = Some \<lparr>generation = 360, load = 0\<rparr>"
proof -
  have sp: "spec (hd altExampleNodes) =
      Some ((plainSpec Alternator PowerSource)\<lparr>maxCurrent := Some 100\<rparr>)"
    by (simp add: altExampleNodes_def)
  have cat: "category ((plainSpec Alternator PowerSource)\<lparr>maxCurrent := Some 100\<rparr>) = PowerSource"
    and ty: "ctype ((plainSpec Alternator PowerSource)\<lparr>maxCurrent := Some 100\<rparr>) = Alternator"
    and mc: "maxCurrent ((plainSpec Alternator PowerSource)\<lparr>maxCurrent := Some 100\<rparr>) = Some 100"
    by (simp_all add: plainSpec_def)
  have i: "node_id (hd altExampleNodes) = ''alt''" by (simp add: altExampleNodes_def)
  have env: "alternatorRPM altExampleEnv = 1400" "engineRunning altExampleEnv"
    by (simp_all add: altExampleEnv_def)
  have tot0: "totalGeneration (initState altExampleNodes) = 0" by (simp add: initState_def)
  have ids: "node_id (plainNode ''b1'' Battery PowerSource) = ''b1''"
    "node_id (plainNode ''b2'' Battery PowerSource) = ''b2''"
    by (simp_all add: plainNode_def)
  from alternator_generation[where nodes = altExampleNodes and edges = altExampleEdges
      and env = altExampleEnv and prev = None and s = "initState altExampleNodes", OF sp cat ty]
  show ?thesis
    by (simp add: i env mc tot0 ids altExample_traced altExample_circuits)
qed

subsection \<open>The diagnostics leave the computed state alone\<close>

lemma sameCore_refl [simp]: "sameCore s s"
  by (simp add: sameCore_def)

lemma sameCore_trans: "sameCore s t \<Longrightarrow> sameCore t u \<Longrightarrow> sameCore s u"
  by (simp add: sameCore_def)

lemma sameCore_warn [simp]: "sameCore (warn m s) s" "sameCore (err m s) s"
  "sameCore (warnIf c m s) s" "sameCore (errIf c m s) s"
  by (simp_all add: sameCore_def warn_def err_def warnIf_def errIf_def)

lemma sameCore_fold:
  assumes "\<And>x s. sameCore (f x s) s"
  shows "sameCore (fold f xs s) s"
proof (induction xs arbitrary: s)
  case Nil
  then show ?case by simp
next
  case (Cons x xs)
  have "sameCore (fold f xs (f x s)) (f x s)" by (rule Cons.IH)
  with assms[of x s] show ?case by (auto intro: sameCore_trans)
qed

lemma sameCore_step:
  "sameCore t s \<Longrightarrow> sameCore (warn m t) s" "sameCore t s \<Longrightarrow> sameCore (err m t) s"
  "sameCore t s \<Longrightarrow> sameCore (warnIf c m t) s" "sameCore t s \<Longrightarrow> sameCore (errIf c m t) s"
  by (simp_all add: sameCore_def warn_def err_def warnIf_def errIf_def)

lemma sameCore_connectionWarnings: "sameCore (connectionWarnings nodes edges env node s) s"
  by (simp add: connectionWarnings_def Let_def sameCore_step split: option.splits)

lemma sameCore_batteryUseWarnings: "sameCore (batteryUseWarnings nodes edges node s) s"
  by (simp add: batteryUseWarnings_def Let_def sameCore_step)

lemma sameCore_protectionMissing: "sameCore (protectionMissing nodes edges node s) s"
  by (simp add: protectionMissing_def Let_def sameCore_step)

lemma sameCore_fuseUndersized: "sameCore (fuseUndersized edges node s) s"
  by (simp add: fuseUndersized_def Let_def sameCore_step split: option.splits)

lemma sameCore_solarVoltageCheck: "sameCore (solarVoltageCheck nodes edges node s) s"
  by (simp add: solarVoltageCheck_def Let_def sameCore_fold split: option.splits)

lemma sameCore_chargeRateCheck: "sameCore (chargeRateCheck nodes edges node s) s"
  by (simp add: chargeRateCheck_def Let_def sameCore_fold split: option.splits)

lemma sameCore_fuseNearLimit: "sameCore (fuseNearLimit edges node s) s"
  by (simp add: fuseNearLimit_def Let_def sameCore_step split: option.splits)

lemma sameCore_dischargeRateCheck: "sameCore (dischargeRateCheck edges node s) s"
  by (simp add: dischargeRateCheck_def Let_def sameCore_step split: option.splits)

lemma sameCore_seriesVoltageCheck: "sameCore (seriesVoltageCheck nodes edges node s) s"
  by (auto simp add: seriesVoltageCheck_def Let_def split: option.splits
        intro!: sameCore_fold)

lemma sameCore_wireGaugeCheck: "sameCore (wireGaugeCheck node s) s"
  by (simp add: wireGaugeCheck_def Let_def split: option.splits)

lemma sameCore_voltageMismatchCheck: "sameCore (voltageMismatchCheck nodes s) s"
  by (simp add: voltageMismatchCheck_def Let_def sameCore_def)

lemma sameCore_alternatorLithiumCheck: "sameCore (alternatorLithiumCheck nodes edges node s) s"
  by (simp add: alternatorLithiumCheck_def Let_def sameCore_fold)

lemma sameCore_busOverloadCheck: "sameCore (busOverloadCheck nodes edges node s) s"
  by (simp add: busOverloadCheck_def Let_def)

lemma sameCore_diagnostics: "sameCore (diagnostics nodes edges env s) s"
  unfolding diagnostics_def Let_def split_def
  by (intro sameCore_trans[OF sameCore_fold] sameCore_trans[OF sameCore_warn(3)]
        sameCore_trans[OF sameCore_voltageMismatchCheck]
        sameCore_connectionWarnings sameCore_batteryUseWarnings sameCore_protectionMissing
        sameCore_fuseUndersized sameCore_solarVoltageCheck sameCore_chargeRateCheck
        sameCore_fuseNearLimit sameCore_dischargeRateCheck sameCore_seriesVoltageCheck
        sameCore_wireGaugeCheck sameCore_alternatorLithiumCheck sameCore_busOverloadCheck
        sameCore_refl)

lemma runSimulation_core:
  "res_systemVoltage (runSimulation nodes edges env prev dt) =
     systemVoltage (runPasses nodes edges env prev dt)"
  "res_nodes (runSimulation nodes edges env prev dt) =
     nodeStates (runPasses nodes edges env prev dt)"
  "res_totalGeneration (runSimulation nodes edges env prev dt) =
     totalGeneration (runPasses nodes edges env prev dt)"
  "res_totalLoad (runSimulation nodes edges env prev dt) =
     totalLoad (runPasses nodes edges env prev dt)"
  using sameCore_diagnostics[of nodes edges env "runPasses nodes edges env prev dt"]
  by (simp_all add: runSimulation_def Let_def sameCore_def)


text \<open>
  C7. The claim makes the system voltage the finalized voltage of the battery with the
  highest rated capacity, or of the first battery seen. The fourth pass instead lets
  every battery of 100 Ah or more overwrite it, so the last such battery in node order
  wins. With a 200 Ah lead-acid battery listed first and a 100 Ah LiFePO4 battery listed
  second (no edges, first tick), battery A ends at 13 V and battery B at 13.35 V, and the
  system voltage is B's.
\<close>

theorem systemVoltage_not_primary:
  "nodeCapacity (twoBatteryNodes ! 0) = 200 \<and> nodeCapacity (twoBatteryNodes ! 1) = 100
   \<and> map_option voltage
        (res_nodes (runSimulation twoBatteryNodes [] DEFAULT_ENV None 1) ''A'') = Some 13
   \<and> map_option voltage
        (res_nodes (runSimulation twoBatteryNodes [] DEFAULT_ENV None 1) ''B'') = Some 13.35
   \<and> res_systemVoltage (runSimulation twoBatteryNodes [] DEFAULT_ENV None 1) = 13.35"
  by code_simp

subsection \<open>Disconnected battery\<close>

lemma warn_fields [simp]:
  "nodeStates (warn m s) = nodeStates s" "nodeStates (err m s) = nodeStates s"
  "systemVoltage (warn m s) = systemVoltage s" "systemVoltage (err m s) = systemVoltage s"
  "batteryCircuits (warn m s) = batteryCircuits s" "batteryCircuits (err m s) = batteryCircuits s"
  "totalLoad (warn m s) = totalLoad s" "totalLoad (err m s) = totalLoad s"
  "totalGeneration (warn m s) = totalGeneration s" "totalGeneration (err m s) = totalGeneration s"
  by (simp_all add: warn_def err_def)

lemma pass4Node_other:
  "node_id n \<noteq> i \<Longrightarrow> nodeStates (pass4Node edges prev dt n s) i = nodeStates s i"
  by (simp add: pass4Node_def Let_def split: option.splits)

lemma pass4Node_not_battery:
  "\<not> isBatteryNode n \<Longrightarrow> pass4Node edges prev dt n s = s"
  by (auto simp add: pass4Node_def isBatteryNode_def isBatteryType_def specType_def
        split: option.splits)

lemma pass4Node_disconnected:
  assumes "isBatteryNode n" "\<not> isNodeConnected edges (node_id n)"
    and "0 \<le> previousSoC prev (node_id n)" "previousSoC prev (node_id n) \<le> 100"
  shows "restingAt (previousSoC prev (node_id n))
           (nodeStates (pass4Node edges prev dt n s) (node_id n))"
proof -
  from assms(1) obtain sp where sp: "spec n = Some sp" "isBatteryType (ctype sp)"
    by (auto simp: isBatteryNode_def isBatteryType_def specType_def)
  have soc: "batt_stateOfCharge (calculateBatteryState sp' 0 (previousSoC prev (node_id n)) dt ps)
      = previousSoC prev (node_id n)" for sp' ps
    using assms(3,4) by (simp add: batt_stateOfCharge_eq)
  show ?thesis
    using sp assms(2) soc
    by (simp add: pass4Node_def Let_def restingAt_def previousSoC_def)
qed

lemma pass4_fold_resting:
  assumes "\<not> isNodeConnected edges i"
    and "0 \<le> previousSoC prev i" "previousSoC prev i \<le> 100"
  shows "restingAt (previousSoC prev i) (nodeStates s i) \<or>
         (\<exists>n \<in> set ns. isBatteryNode n \<and> node_id n = i)
         \<Longrightarrow> restingAt (previousSoC prev i)
               (nodeStates (fold (pass4Node edges prev dt) ns s) i)"
proof (induction ns arbitrary: s)
  case Nil
  then show ?case by simp
next
  case (Cons n ns)
  have "restingAt (previousSoC prev i) (nodeStates (pass4Node edges prev dt n s) i) \<or>
        (\<exists>m \<in> set ns. isBatteryNode m \<and> node_id m = i)"
  proof (cases "isBatteryNode n \<and> node_id n = i")
    case True
    with pass4Node_disconnected[of n edges prev dt s] assms show ?thesis by auto
  next
    case False
    show ?thesis
    proof (cases "node_id n = i")
      case True
      with False have "pass4Node edges prev dt n s = s" by (simp add: pass4Node_not_battery)
      with Cons.prems False show ?thesis by auto
    next
      case neq: False
      then have "nodeStates (pass4Node edges prev dt n s) i = nodeStates s i"
        by (rule pass4Node_other)
      with Cons.prems neq show ?thesis by auto
    qed
  qed
  from Cons.IH[OF this] show ?case by simp
qed

text \<open>
  C9. A battery node that no edge touches: whatever the tick length, the capacity, the
  chemistry, the environment and the rest of the diagram, the result of the tick holds
  for it the state of charge of the previous result (80 on the first tick), provided
  that this value lies in [0, 100], a current of 0, a power of 0 and the status idle.
\<close>

theorem disconnected_battery:
  assumes "node \<in> set nodes" "isBatteryNode node"
    and "\<not> isNodeConnected edges (node_id node)"
    and "0 \<le> previousSoC prev (node_id node)" "previousSoC prev (node_id node) \<le> 100"
  shows "\<exists>st. res_nodes (runSimulation nodes edges env prev dt) (node_id node) = Some st \<and>
              stateOfCharge st = Some (previousSoC prev (node_id node)) \<and>
              current st = 0 \<and> power st = 0 \<and> state st = Idle"
proof -
  have "\<exists>n \<in> set nodes. isBatteryNode n \<and> node_id n = node_id node"
    using assms(1,2) by blast
  with pass4_fold_resting[OF assms(3-5)] have
    "restingAt (previousSoC prev (node_id node))
       (res_nodes (runSimulation nodes edges env prev dt) (node_id node))"
    by (simp add: runSimulation_core runPasses_def Let_def)
  then show ?thesis by (auto simp: restingAt_def split: option.splits)
qed

theorem disconnected_battery_witness:
  "previousSoC (Some loneBatteryPrev) ''batt'' = 55
   \<and> \<not> isNodeConnected [] ''batt''
   \<and> (\<exists>st. res_nodes (runSimulation loneBatteryNodes [] DEFAULT_ENV (Some loneBatteryPrev) 3600)
              ''batt'' = Some st
           \<and> stateOfCharge st = Some 55 \<and> current st = 0 \<and> power st = 0 \<and> state st = Idle)"
proof -
  have p: "previousSoC (Some loneBatteryPrev) ''batt'' = 55" by code_simp
  have n: "hd loneBatteryNodes \<in> set loneBatteryNodes" "isBatteryNode (hd loneBatteryNodes)"
    "node_id (hd loneBatteryNodes) = ''batt''"
    by (simp_all add: loneBatteryNodes_def isBatteryNode_def specType_def plainSpec_def)
  have c: "\<not> isNodeConnected [] ''batt''" by (simp add: isNodeConnected_def)
  from disconnected_battery[of "hd loneBatteryNodes" loneBatteryNodes "[]" "Some loneBatteryPrev"
      DEFAULT_ENV 3600] n c p
  show ?thesis by simp
qed

subsection \<open>Protection devices\<close>

lemma fold_add_sum: "fold (\<lambda>x t. t + g x) xs a = a + sum_list (map g xs)"
  by (induction xs arbitrary: a) (simp_all add: add.assoc)

lemma sumLoadCurrent_sum:
  assumes "\<forall>l \<in> set loads. ns (node_id l) \<noteq> None"
  shows "sumLoadCurrent ns loads =
           (\<Sum>l\<leftarrow>loads. activeLoadCurrent (the (ns (node_id l))))"
proof -
  have "fold (\<lambda>loadNode total.
        case ns (node_id loadNode) of
          Some loadState \<Rightarrow> if state loadState = On then total + current loadState else total
        | None \<Rightarrow> total) loads a
      = a + (\<Sum>l\<leftarrow>loads. activeLoadCurrent (the (ns (node_id l))))" for a
    using assms
    by (induction loads arbitrary: a) (auto simp: activeLoadCurrent_def)
  then show ?thesis by (simp add: sumLoadCurrent_def)
qed

lemma sumChargingCurrent_sum:
  "sumChargingCurrent ns chargers =
     (\<Sum>c\<leftarrow>chargers. activeChargerCurrent (ns (node_id c)))"
proof -
  have "fold (\<lambda>chargerNode total.
        case ns (node_id chargerNode) of
          Some chargerState \<Rightarrow>
            if state chargerState = On \<or> state chargerState = ChargingSt
            then total + orElse (outputCurrent chargerState)
                           (orElse (Some (current chargerState)) 0)
            else total
        | None \<Rightarrow> total) chargers a
      = a + (\<Sum>c\<leftarrow>chargers. activeChargerCurrent (ns (node_id c)))" for a
    by (induction chargers arbitrary: a)
       (auto simp: activeChargerCurrent_def orElse_def split: option.splits)
  then show ?thesis by (simp add: sumChargingCurrent_def)
qed

lemma pass3Node_protection:
  "spec node = Some sp \<Longrightarrow> category sp = Protection \<Longrightarrow>
   pass3Node nodes edges node s = protectionStep nodes edges node sp s"
  by (simp add: pass3Node_def)

lemma protectionStep_entry:
  "nodeStates (protectionStep nodes edges node sp s) (node_id node) =
     Some (if customValues node ''isBlown'' = Some (Bool True) then mkState 0 0 0 Off
           else mkState (systemVoltage s) (currentThroughProtection nodes edges node s)
                  (currentThroughProtection nodes edges node s * systemVoltage s)
                  (if currentThroughProtection nodes edges node s >
                      orElse (cvNum (customValues node) ''rating'') (orElse (rating sp) 15)
                   then Fault else On))"
  by (simp add: protectionStep_def Let_def)

lemma protectionStep_warnings:
  "warnings (protectionStep nodes edges node sp s) =
     (if currentThroughProtection nodes edges node s >
           orElse (cvNum (customValues node) ''rating'') (orElse (rating sp) 15) \<and>
         customValues node ''isBlown'' \<noteq> Some (Bool True)
      then warnings s @
             [overRatedMessage (label node) (currentThroughProtection nodes edges node s)
                (orElse (cvNum (customValues node) ''rating'') (orElse (rating sp) 15))]
      else warnings s)"
  by (simp add: protectionStep_def Let_def warn_def setNode_def)

lemma mkState_fields [simp]:
  "voltage (mkState v c p st) = v" "current (mkState v c p st) = c"
  "power (mkState v c p st) = p" "state (mkState v c p st) = st"
  by (simp_all add: mkState_def)

text \<open>
  C8, as amended. For every protection node, evaluated in a state in which all its traced
  loads have their entry of this tick: the current through it is the maximum
  (not the sum) of the summed currents of the traced loads that are on and the summed
  output currents of the traced chargers that are on or charging. If the node is not
  manually marked blown, that value is its reported current (with the system voltage and
  their product as power), and its status is fault if the value exceeds the rating and
  on otherwise; if it is manually marked blown, its status is off and its reported
  voltage, current and power are 0. In fault, one warning is appended that carries the
  label, the measured current and the rating; otherwise none.
\<close>

theorem protection_current:
  fixes nodes edges node sp s
  defines "s' \<equiv> pass3Node nodes edges node s"
    and "loads \<equiv> findConnectedByCategory nodes edges (node_id node) [Load]"
    and "chargers \<equiv> findConnectedByCategory nodes edges (node_id node) [Charging]"
    and "ratingA \<equiv> orElse (cvNum (customValues node) ''rating'') (orElse (rating sp) 15)"
    and "blown \<equiv> customValues node ''isBlown'' = Some (Bool True)"
  defines "through \<equiv>
      max (\<Sum>l\<leftarrow>loads. activeLoadCurrent (the (nodeStates s (node_id l))))
          (\<Sum>c\<leftarrow>chargers. activeChargerCurrent (nodeStates s (node_id c)))"
  assumes "spec node = Some sp" "category sp = Protection"
    and "\<forall>l \<in> set loads. nodeStates s (node_id l) \<noteq> None"
  shows "\<exists>st. nodeStates s' (node_id node) = Some st \<and>
          (\<not> blown \<longrightarrow>
             current st = through \<and> voltage st = systemVoltage s \<and>
             power st = through * systemVoltage s \<and>
             state st = (if through > ratingA then Fault else On)) \<and>
          (blown \<longrightarrow> state st = Off \<and> current st = 0 \<and> voltage st = 0 \<and> power st = 0) \<and>
          (state st = Fault \<longrightarrow>
             warnings s' =
               warnings s @ [Message ''{L} is over-rated: {N}A through {N}A fuse!''
                               [label node] [through, ratingA]]) \<and>
          (state st \<noteq> Fault \<longrightarrow> warnings s' = warnings s)"
proof -
  have thr: "currentThroughProtection nodes edges node s = through"
    unfolding currentThroughProtection_def Let_def through_def
    using sumLoadCurrent_sum[OF assms(9)[unfolded loads_def]]
    by (simp add: loads_def chargers_def sumChargingCurrent_sum)
  have s': "s' = protectionStep nodes edges node sp s"
    unfolding s'_def using assms(7,8) by (rule pass3Node_protection)
  show ?thesis
    unfolding s' protectionStep_entry protectionStep_warnings thr
    by (simp add: ratingA_def blown_def overRatedMessage_def)
qed

lemma overload_example:
  "spec fuse15 = Some ((plainSpec OtherType Protection)\<lparr>rating := Some 15\<rparr>)"
  "category ((plainSpec OtherType Protection)\<lparr>rating := Some 15\<rparr>) = Protection"
  "rating ((plainSpec OtherType Protection)\<lparr>rating := Some 15\<rparr>) = Some 15"
  "node_id fuse15 = ''fuse''" "label fuse15 = ''fuse''"
  "customValues fuse15 = Map.empty"
  by (simp_all add: fuse15_def plainSpec_def)

lemma overload_example_loads:
  "\<forall>l \<in> set (findConnectedByCategory overloadNodes fuseEdges ''fuse'' [Load]).
     nodeStates (pass3Node overloadNodes fuseEdges load20 (initState overloadNodes)) (node_id l)
       \<noteq> None"
  by code_simp

lemma overload_example_sums:
  "(\<Sum>l\<leftarrow>findConnectedByCategory overloadNodes fuseEdges ''fuse'' [Load].
      activeLoadCurrent
        (the (nodeStates (pass3Node overloadNodes fuseEdges load20 (initState overloadNodes))
                (node_id l)))) = 20"
  "(\<Sum>c\<leftarrow>findConnectedByCategory overloadNodes fuseEdges ''fuse'' [Charging].
      activeChargerCurrent
        (nodeStates (pass3Node overloadNodes fuseEdges load20 (initState overloadNodes))
           (node_id c))) = 0"
  "warnings (pass3Node overloadNodes fuseEdges load20 (initState overloadNodes)) = []"
  by code_simp+

theorem protection_current_witness:
  "\<exists>st. nodeStates
          (pass3Node overloadNodes fuseEdges fuse15
             (pass3Node overloadNodes fuseEdges load20 (initState overloadNodes))) ''fuse''
          = Some st \<and>
        current st = 20 \<and> state st = Fault \<and>
        warnings
          (pass3Node overloadNodes fuseEdges fuse15
             (pass3Node overloadNodes fuseEdges load20 (initState overloadNodes)))
          = [Message ''{L} is over-rated: {N}A through {N}A fuse!'' [''fuse''] [20, 15]]"
proof -
  have evaluated:
    "\<forall>l \<in> set (findConnectedByCategory overloadNodes fuseEdges (node_id fuse15) [Load]).
       nodeStates (pass3Node overloadNodes fuseEdges load20 (initState overloadNodes))
         (node_id l) \<noteq> None"
    unfolding overload_example(4) by (rule overload_example_loads)
  from protection_current[OF overload_example(1,2) evaluated]
  obtain st where st:
    "nodeStates
       (pass3Node overloadNodes fuseEdges fuse15
          (pass3Node overloadNodes fuseEdges load20 (initState overloadNodes))) (node_id fuse15)
       = Some st"
    "current st = 20" "state st = Fault"
    "state st = Fault \<longrightarrow>
       warnings
         (pass3Node overloadNodes fuseEdges fuse15
            (pass3Node overloadNodes fuseEdges load20 (initState overloadNodes)))
       = [Message ''{L} is over-rated: {N}A through {N}A fuse!'' [''fuse''] [20, 15]]"
    by (auto simp add: overload_example overload_example_sums cvNum_def orElse_def)
  then show ?thesis by (auto simp: overload_example)
qed

text \<open>
  C8 as stated fails for a fuse that is manually marked blown: with a 5 A load that is on
  behind it, the maximum of the two sums is 5 A and the fuse reports 0 A.
\<close>

theorem blown_fuse_reports_zero:
  "map_option state
     (res_nodes (runSimulation blownFuseNodes fuseEdges DEFAULT_ENV None 1) ''load'') = Some On
   \<and> map node_id (findConnectedByCategory blownFuseNodes fuseEdges ''fuse'' [Load]) = [''load'']
   \<and> max (sumLoadCurrent (res_nodes (runSimulation blownFuseNodes fuseEdges DEFAULT_ENV None 1))
            (findConnectedByCategory blownFuseNodes fuseEdges ''fuse'' [Load]))
          (sumChargingCurrent (res_nodes (runSimulation blownFuseNodes fuseEdges DEFAULT_ENV None 1))
            (findConnectedByCategory blownFuseNodes fuseEdges ''fuse'' [Charging])) = 5
   \<and> map_option current
       (res_nodes (runSimulation blownFuseNodes fuseEdges DEFAULT_ENV None 1) ''fuse'') = Some 0
   \<and> map_option state
       (res_nodes (runSimulation blownFuseNodes fuseEdges DEFAULT_ENV None 1) ''fuse'') = Some Off"
  by code_simp

text \<open>
  The sums read the entries written so far in the same pass. With the 20 A load listed
  before the 15 A fuse, the fuse is in fault at 20 A and the warning is there; with the
  fuse listed first, the load still draws 20 A, and the fuse reports 0 A, is on, and no
  warning is raised.
\<close>

theorem fuse_before_load_sees_no_current:
  "map_option current
     (res_nodes (runSimulation overloadNodes fuseEdges DEFAULT_ENV None 1) ''fuse'') = Some 20
   \<and> map_option state
       (res_nodes (runSimulation overloadNodes fuseEdges DEFAULT_ENV None 1) ''fuse'') = Some Fault
   \<and> overRatedMessage ''fuse'' 20 15
       \<in> set (res_warnings (runSimulation overloadNodes fuseEdges DEFAULT_ENV None 1))
   \<and> map_option current
       (res_nodes (runSimulation overloadNodesFuseFirst fuseEdges DEFAULT_ENV None 1) ''load'')
       = Some 20
   \<and> map_option state
       (res_nodes (runSimulation overloadNodesFuseFirst fuseEdges DEFAULT_ENV None 1) ''load'')
       = Some On
   \<and> map_option current
       (res_nodes (runSimulation overloadNodesFuseFirst fuseEdges DEFAULT_ENV None 1) ''fuse'')
       = Some 0
   \<and> map_option state
       (res_nodes (runSimulation overloadNodesFuseFirst fuseEdges DEFAULT_ENV None 1) ''fuse'')
       = Some On
   \<and> overRatedMessage ''fuse'' 20 15
       \<notin> set (res_warnings (runSimulation overloadNodesFuseFirst fuseEdges DEFAULT_ENV None 1))"
  by code_simp

subsection \<open>Zero and absent values\<close>

lemma orElse_zero: "orElse (Some 0) d = orElse None d"
  by (simp add: orElse_def)

lemma orElse_chain_nonzero: "d \<noteq> 0 \<Longrightarrow> orElse a (orElse b d) \<noteq> 0"
  by (simp add: orElse_def split: option.splits)

lemma calculateBatteryState_cong:
  assumes "orElse (capacity sp1) 100 = orElse (capacity sp2) 100"
    and "batteryChemistry sp1 = batteryChemistry sp2"
  shows "calculateBatteryState sp1 i soc dt prev = calculateBatteryState sp2 i soc dt prev"
  by (simp only: calculateBatteryState_def assms)

lemma protectionStep_zero_rating:
  assumes "rating sp = None \<or> rating sp = Some 0"
  shows "protectionStep nodes edges
           \<lparr>node_id = i, spec = Some sp, label = l, customValues = cv(''rating'' \<mapsto> Num 0)\<rparr> sp s
       = protectionStep nodes edges
           \<lparr>node_id = i, spec = Some (sp\<lparr>rating := Some 15\<rparr>), label = l,
            customValues = cv(''rating'' := None)\<rparr> (sp\<lparr>rating := Some 15\<rparr>) s"
  using assms
  by (auto simp add: protectionStep_def currentThroughProtection_def cvNum_def orElse_def Let_def)

lemma solar_zero_wattage:
  assumes "wattage sp = None \<or> wattage sp = Some 0"
  shows "calculateSolarOutput sp irr (cv(''wattage'' \<mapsto> Num 0))
       = calculateSolarOutput (sp\<lparr>wattage := Some 100\<rparr>) irr (cv(''wattage'' := None))"
  using assms
  by (auto simp add: calculateSolarOutput_def cvNum_def orElse_def Let_def)

lemma pass4Node_zero_capacity:
  assumes "capacity sp = None \<or> capacity sp = Some 0"
  shows "pass4Node edges prev dt
           \<lparr>node_id = i, spec = Some sp, label = l, customValues = cv(''capacity'' \<mapsto> Num 0)\<rparr> s
       = pass4Node edges prev dt
           \<lparr>node_id = i, spec = Some (sp\<lparr>capacity := Some 100\<rparr>), label = l,
            customValues = cv(''capacity'' := None)\<rparr> s"
proof -
  have c: "calculateBatteryState
             (sp\<lparr>capacity := orElseOpt (cvNum (cv(''capacity'' \<mapsto> Num 0)) ''capacity'') (capacity sp)\<rparr>)
             x soc dt ps
         = calculateBatteryState
             (sp\<lparr>capacity := Some 100,
                 capacity := orElseOpt (cvNum (cv(''capacity'' := None)) ''capacity'') (Some 100)\<rparr>)
             x soc dt ps" for x soc ps
    using assms
    by (intro calculateBatteryState_cong) (auto simp: cvNum_def orElseOpt_def orElse_def)
  have b: "orElse (cvNum (cv(''capacity'' \<mapsto> Num 0)) ''capacity'') (orElse (capacity sp) 100)
         = orElse (cvNum (cv(''capacity'' := None)) ''capacity'') (orElse (Some 100) 100)"
    using assms by (auto simp: cvNum_def orElse_def)
  show ?thesis
    unfolding pass4Node_def Let_def
    by (simp add: c b split del: if_split cong: if_cong option.case_cong)
qed


text \<open>
  C10. \<^verbatim>\<open>||\<close> treats a numeric 0 like an absent value, so a chain with a non-zero
  default never yields 0. At the three places that the claim names: a protection node
  with rating override 0 (and no rating in its spec) is evaluated exactly like one
  without override and with rating 15; a solar panel with wattage override 0 (and no
  wattage in its spec) gives the output of a 100 W panel; a battery with capacity
  override 0 (and no capacity in its spec) is finalised exactly like a 100 Ah battery,
  and \<^verbatim>\<open>calculateBatteryState\<close> with capacity 0 is the same as with capacity 100.
\<close>

theorem zero_is_absent:
  "orElse (Some 0) d = orElse None d
   \<and> (d \<noteq> 0 \<longrightarrow> orElse a (orElse b d) \<noteq> 0)
   \<and> (rating sp = None \<or> rating sp = Some 0 \<longrightarrow>
        protectionStep nodes edges
          \<lparr>node_id = i, spec = Some sp, label = l, customValues = cv(''rating'' \<mapsto> Num 0)\<rparr> sp s
        = protectionStep nodes edges
            \<lparr>node_id = i, spec = Some (sp\<lparr>rating := Some 15\<rparr>), label = l,
             customValues = cv(''rating'' := None)\<rparr> (sp\<lparr>rating := Some 15\<rparr>) s)
   \<and> (wattage sp = None \<or> wattage sp = Some 0 \<longrightarrow>
        calculateSolarOutput sp irr (cv(''wattage'' \<mapsto> Num 0))
        = calculateSolarOutput (sp\<lparr>wattage := Some 100\<rparr>) irr (cv(''wattage'' := None)))
   \<and> (capacity sp = None \<or> capacity sp = Some 0 \<longrightarrow>
        pass4Node edges prev dt
          \<lparr>node_id = i, spec = Some sp, label = l, customValues = cv(''capacity'' \<mapsto> Num 0)\<rparr> s
        = pass4Node edges prev dt
            \<lparr>node_id = i, spec = Some (sp\<lparr>capacity := Some 100\<rparr>), label = l,
             customValues = cv(''capacity'' := None)\<rparr> s)
   \<and> calculateBatteryState (sp\<lparr>capacity := Some 0\<rparr>) netCurrent soc dt prevStatus
       = calculateBatteryState (sp\<lparr>capacity := Some 100\<rparr>) netCurrent soc dt prevStatus"
proof -
  have "calculateBatteryState (sp\<lparr>capacity := Some 0\<rparr>) netCurrent soc dt prevStatus
       = calculateBatteryState (sp\<lparr>capacity := Some 100\<rparr>) netCurrent soc dt prevStatus"
    by (rule calculateBatteryState_cong) (simp_all add: orElse_def)
  then show ?thesis
    using orElse_zero[of d] orElse_chain_nonzero[of d a b]
      protectionStep_zero_rating[of sp nodes edges i l cv s]
      solar_zero_wattage[of sp irr cv]
      pass4Node_zero_capacity[of sp edges prev dt i l cv s]
    by blast
qed

lemma zeroRated_eval:
  "map_option state
     (nodeStates
        (protectionStep zeroRatedNodes fuseEdges
           \<lparr>node_id = ''fuse'',
            spec = Some ((plainSpec OtherType Protection)\<lparr>rating := Some 15\<rparr>),
            label = ''fuse'', customValues = Map.empty(''rating'' := None)\<rparr>
           ((plainSpec OtherType Protection)\<lparr>rating := Some 15\<rparr>)
           (pass3Node zeroRatedNodes fuseEdges load10 (initState zeroRatedNodes))) ''fuse'')
   = Some On"
  "map_option current
     (nodeStates
        (protectionStep zeroRatedNodes fuseEdges
           \<lparr>node_id = ''fuse'',
            spec = Some ((plainSpec OtherType Protection)\<lparr>rating := Some 15\<rparr>),
            label = ''fuse'', customValues = Map.empty(''rating'' := None)\<rparr>
           ((plainSpec OtherType Protection)\<lparr>rating := Some 15\<rparr>)
           (pass3Node zeroRatedNodes fuseEdges load10 (initState zeroRatedNodes))) ''fuse'')
   = Some 10"
  "out_power (calculateSolarOutput ((plainSpec SolarPanel PowerSource)\<lparr>wattage := Some 100\<rparr>)
      1000 (Map.empty(''wattage'' := None))) = 100"
  "batt_stateOfCharge (calculateBatteryState
      ((plainSpec Battery PowerSource)\<lparr>capacity := Some 100\<rparr>) 10 50 3600 None) = 60"
  by code_simp+

theorem zero_is_absent_witness:
  "orElse (Some 0) (orElse None 15) \<noteq> 0
   \<and> map_option state
       (nodeStates
          (protectionStep zeroRatedNodes fuseEdges zeroRatedFuse (plainSpec OtherType Protection)
             (pass3Node zeroRatedNodes fuseEdges load10 (initState zeroRatedNodes))) ''fuse'')
     = Some On
   \<and> map_option current
       (nodeStates
          (protectionStep zeroRatedNodes fuseEdges zeroRatedFuse (plainSpec OtherType Protection)
             (pass3Node zeroRatedNodes fuseEdges load10 (initState zeroRatedNodes))) ''fuse'')
     = Some 10
   \<and> out_power (calculateSolarOutput (plainSpec SolarPanel PowerSource) 1000
        [''wattage'' \<mapsto> Num 0]) = 100
   \<and> batt_stateOfCharge (calculateBatteryState
        ((plainSpec Battery PowerSource)\<lparr>capacity := Some 0\<rparr>) 10 50 3600 None) = 60"
proof -
  have r: "rating (plainSpec OtherType Protection) = None"
    and w: "wattage (plainSpec SolarPanel PowerSource) = None"
    by (simp_all add: plainSpec_def)
  have n: "(15::real) \<noteq> 0" by simp
  have f: "zeroRatedFuse =
      \<lparr>node_id = ''fuse'', spec = Some (plainSpec OtherType Protection), label = ''fuse'',
       customValues = Map.empty(''rating'' \<mapsto> Num 0)\<rparr>"
    by (simp add: zeroRatedFuse_def)
  from zero_is_absent[of 15 "Some 0" None "plainSpec OtherType Protection" zeroRatedNodes
      fuseEdges "''fuse''" "''fuse''" Map.empty
      "pass3Node zeroRatedNodes fuseEdges load10 (initState zeroRatedNodes)"]
  have a: "orElse (Some 0) (orElse None 15) \<noteq> 0"
    and b: "protectionStep zeroRatedNodes fuseEdges zeroRatedFuse (plainSpec OtherType Protection)
             (pass3Node zeroRatedNodes fuseEdges load10 (initState zeroRatedNodes))
        = protectionStep zeroRatedNodes fuseEdges
           \<lparr>node_id = ''fuse'',
            spec = Some ((plainSpec OtherType Protection)\<lparr>rating := Some 15\<rparr>),
            label = ''fuse'', customValues = Map.empty(''rating'' := None)\<rparr>
           ((plainSpec OtherType Protection)\<lparr>rating := Some 15\<rparr>)
           (pass3Node zeroRatedNodes fuseEdges load10 (initState zeroRatedNodes))"
    using r n unfolding f by blast+
  from zero_is_absent[where sp = "plainSpec SolarPanel PowerSource" and irr = 1000
      and cv = Map.empty]
  have c: "calculateSolarOutput (plainSpec SolarPanel PowerSource) 1000 [''wattage'' \<mapsto> Num 0]
        = calculateSolarOutput ((plainSpec SolarPanel PowerSource)\<lparr>wattage := Some 100\<rparr>)
            1000 (Map.empty(''wattage'' := None))"
    using w by blast
  from zero_is_absent[where sp = "plainSpec Battery PowerSource" and netCurrent = 10
      and soc = 50 and dt = 3600 and prevStatus = None]
  have d: "calculateBatteryState ((plainSpec Battery PowerSource)\<lparr>capacity := Some 0\<rparr>)
             10 50 3600 None
        = calculateBatteryState ((plainSpec Battery PowerSource)\<lparr>capacity := Some 100\<rparr>)
             10 50 3600 None"
    by blast
  show ?thesis
    unfolding b c d using a zeroRated_eval by simp
qed

subsection \<open>Bounds of the state of charge\<close>


subsection \<open>The tracer does not depend on its fuel\<close>

text \<open>
  More fuel never changes a result of the tracer, so any fuel above twice the number of
  edges gives the list that \<open>traceAllConnections\<close> returns: the fuel only stands
  for the recursion of the source, which always ends.
\<close>

lemma traceStep_mono:
  assumes "\<And>c v p. rec1 c v = Some p \<Longrightarrow> rec2 c v = Some p"
    and "traceStep rec1 nodes c acc = Some q"
  shows "traceStep rec2 nodes c acc = Some q"
  using assms(2) assms(1)
  by (auto simp: traceStep_def split: option.splits if_splits prod.splits)

lemma fold_traceStep_mono:
  assumes "\<And>c v p. rec1 c v = Some p \<Longrightarrow> rec2 c v = Some p"
  shows "fold (traceStep rec1 nodes) cs acc = Some q
         \<Longrightarrow> fold (traceStep rec2 nodes) cs acc = Some q"
proof (induction cs arbitrary: acc)
  case Nil
  then show ?case by simp
next
  case (Cons c cs)
  show ?case
  proof (cases "traceStep rec1 nodes c acc")
    case None
    with Cons.prems show ?thesis by simp
  next
    case (Some a)
    have "traceStep rec2 nodes c acc = Some a"
      by (rule traceStep_mono[OF _ Some]) (rule assms)
    with Cons.prems Some Cons.IH show ?thesis by simp
  qed
qed

lemma traceFuel_Suc:
  "traceFuel n nodes edges s vis = Some p \<Longrightarrow> traceFuel (Suc n) nodes edges s vis = Some p"
proof (induction n arbitrary: s vis p)
  case 0
  then show ?case by simp
next
  case (Suc n)
  show ?case
  proof (cases "s \<in> vis")
    case True
    with Suc.prems show ?thesis by simp
  next
    case False
    with Suc.prems have
      "fold (traceStep (traceFuel n nodes edges) nodes) (getDirectConnections edges s)
         (Some ([], insert s vis)) = Some p" by simp
    then have
      "fold (traceStep (traceFuel (Suc n) nodes edges) nodes) (getDirectConnections edges s)
         (Some ([], insert s vis)) = Some p"
      by (rule fold_traceStep_mono[rotated]) (rule Suc.IH)
    with False show ?thesis by simp
  qed
qed

lemma traceFuel_more_fuel:
  "traceFuel n nodes edges s vis = Some p \<Longrightarrow> traceFuel (n + k) nodes edges s vis = Some p"
  by (induction k) (simp_all add: traceFuel_Suc del: traceFuel.simps)

lemma traceAllConnections_any_fuel:
  "2 * length edges < n \<Longrightarrow>
   traceFuel n nodes edges s {} = Some (r, vis) \<Longrightarrow> traceAllConnections nodes edges s = r"
proof -
  assume n: "2 * length edges < n" and t: "traceFuel n nodes edges s {} = Some (r, vis)"
  from traceFuel_total[of edges nodes s "{}"] obtain r0 v0 where
    t0: "traceFuel (Suc (2 * length edges)) nodes edges s {} = Some (r0, v0)" by blast
  from n obtain k where "n = Suc (2 * length edges) + k"
    by (metis Suc_leI le_Suc_ex)
  with traceFuel_more_fuel[OF t0, of k] t have "r0 = r" by simp
  with t0 show ?thesis by (simp add: traceAllConnections_def)
qed

end
